theory Spec2Isabelle
  imports Main "HOL-Library.Sublist"
begin

section \<open>Strings\<close>

text \<open>
  A Go string is a sequence of bytes; \<open>string\<close> (a list of 8-bit characters) models it.
  \<open>extractVersion\<close> walks the string with \<^verbatim>\<open>for i, c := range s\<close>, that is rune by rune
  with \<open>i\<close> the byte offset of the rune.  Every test it makes on \<open>c\<close> is a test for an ASCII
  digit or an ASCII dot, every byte of a rune outside ASCII is at least \<open>0x80\<close>, and the
  offsets it slices at are offsets of rune starts, so the byte-wise walk below takes the
  same branch at the same offset.
\<close>

definition isDigit :: "char \<Rightarrow> bool" where
  "isDigit c \<longleftrightarrow> (of_char (CHR ''0'') :: nat) \<le> of_char c \<and> (of_char c :: nat) \<le> of_char (CHR ''9'')"

text \<open>The slice expression \<^verbatim>\<open>s[a:b]\<close> for \<open>a \<le> b \<le> len(s)\<close>.\<close>

definition slice :: "string \<Rightarrow> nat \<Rightarrow> nat \<Rightarrow> string" where
  "slice s a b = take (b - a) (drop a s)"

section \<open>extractVersion\<close>

text \<open>
  The loop of \<open>extractVersion\<close>: \<open>s\<close> is the whole text, \<open>start\<close> the variable of that name
  (\<open>-1\<close> until the first digit), \<open>i\<close> the offset of the next byte and the last argument the
  bytes from \<open>i\<close> on.  The empty case is the code after the loop.
\<close>

fun extractVersion_loop :: "string \<Rightarrow> int \<Rightarrow> nat \<Rightarrow> string \<Rightarrow> string" where
  "extractVersion_loop s start i [] =
     (if start \<noteq> -1 then drop (nat start) s else s)"
| "extractVersion_loop s start i (c # cs) =
     (if isDigit c then
        (if start = -1 then extractVersion_loop s (int i) (i + 1) cs
         else extractVersion_loop s start (i + 1) cs)
      else if c = CHR ''.'' \<and> start \<noteq> -1 then extractVersion_loop s start (i + 1) cs
      else if start \<noteq> -1 then slice s (nat start) i
      else extractVersion_loop s start (i + 1) cs)"

definition extractVersion :: "string \<Rightarrow> string" where
  "extractVersion s = extractVersion_loop s (-1) 0 s"

text \<open>
  The specification's wording, "the first run of digits-and-dots", read as: drop everything
  before the first digit, then keep digits and dots for as long as they last.
\<close>

definition isDigitOrDot :: "char \<Rightarrow> bool" where
  "isDigitOrDot c \<longleftrightarrow> isDigit c \<or> c = CHR ''.''"

definition spec_version_run :: "string \<Rightarrow> string" where
  "spec_version_run s = takeWhile isDigitOrDot (dropWhile (\<lambda>c. \<not> isDigit c) s)"

section \<open>The operating system as the program sees it\<close>

text \<open>
  The program talks to the file system, the clock and external commands through Go's
  standard library.  The library is not part of the program: what the claims need of it is
  modelled here, small and explicit.

  A path names at most one node, a regular file (its bytes and its modification time) or a
  directory.
\<close>

type_synonym path = string

datatype node = File string nat | Dir

text \<open>
  Errors.  The first four are error numbers of the system (\<^verbatim>\<open>syscall.Errno\<close>): no such
  file, is a directory, not a directory, and \<open>ErrFault\<close> for any other refusal.
  \<open>PathError op path err\<close> is \<^verbatim>\<open>*fs.PathError\<close>, the error of a file operation: the
  name of the operation, the path and the error number.  \<open>CmdError text\<close> is an error of
  \<^verbatim>\<open>os/exec\<close> with the text the library gives it: \<^verbatim>\<open>exit status 1\<close> for a command that
  ran and failed, \<^verbatim>\<open>exec: "scoop": executable file not found in %PATH%\<close> for one that
  could not be started.
\<close>

datatype error =
    ErrNotExist | ErrIsDir | ErrNotDir | ErrFault
  | PathError string path error
  | CmdError string

text \<open>The \<open>err\<close> of a result \<^verbatim>\<open>(x, err)\<close>: \<open>None\<close> is \<^verbatim>\<open>nil\<close>.\<close>

definition err_of :: "error + 'a \<Rightarrow> error option" where
  "err_of r = (case r of Inl err \<Rightarrow> Some err | Inr x \<Rightarrow> None)"

text \<open>\<^verbatim>\<open>os.IsNotExist(err)\<close> looks under a \<open>PathError\<close>; \<^verbatim>\<open>nil\<close> is no such error.\<close>

fun underlyingError :: "error \<Rightarrow> error" where
  "underlyingError (PathError op p err) = err"
| "underlyingError err = err"

definition os_IsNotExist :: "error option \<Rightarrow> bool" where
  "os_IsNotExist err = (case err of None \<Rightarrow> False | Some e \<Rightarrow> underlyingError e = ErrNotExist)"

text \<open>
  The system calls that can fail for reasons outside the model (permissions, a sharing
  violation, a full disk, a path that is too long).  Whether a call fails that way is an
  input of the run: \<open>io_fault P n op\<close> says that \<open>op\<close>, made as the \<open>n\<close>-th call, fails.
\<close>

datatype sysop =
    OpStat path | OpMkdirAll path | OpOpen path | OpCreate path | OpRead path | OpWrite path
  | OpRename path path | OpRemoveAll path

record fileinfo =
  fi_isDir :: bool
  fi_size :: nat
  fi_modTime :: nat

text \<open>What the run prints and does, in order.  Colours and blank lines are left out.\<close>

datatype event =
    EvStep string | EvSuccess string | EvSkip string | EvFail string | EvInfo string
  | EvExec string "string list" | EvSummary "string list"

text \<open>
  The platform: library functions the program calls and the inputs the outside world
  supplies.  All of them are parameters; no theorem below depends on what they are.
  \<open>errno_Error\<close> is the text the system has for an error number.
  The inputs that can change while the program runs take the number of the call as
  argument: \<open>time_Now P k\<close> is the \<open>k\<close>-th reading of the clock, \<open>time_Format\<close> the layout
  \<^verbatim>\<open>20060102-150405\<close>, \<open>fs_time P n\<close> the modification time the file system gives to a
  write made as the \<open>n\<close>-th call.
\<close>

record platform =
  sha256_hex :: "string \<Rightarrow> string"
  filepath_Join :: "string list \<Rightarrow> string"
  filepath_Dir :: "string \<Rightarrow> string"
  strings_TrimSpace :: "string \<Rightarrow> string"
  time_Now :: "nat \<Rightarrow> nat"
  time_Format :: "nat \<Rightarrow> string"
  fs_time :: "nat \<Rightarrow> nat"
  io_fault :: "nat \<Rightarrow> sysop \<Rightarrow> bool"
  io_partial :: "nat \<Rightarrow> nat"
  os_Getenv :: "string \<Rightarrow> string"
  os_Executable :: "error + string"
  exec_LookPath :: "nat \<Rightarrow> string \<Rightarrow> string \<Rightarrow> bool"
  exec_result :: "nat \<Rightarrow> string \<Rightarrow> string list \<Rightarrow> string \<times> error option"
  exec_effect :: "nat \<Rightarrow> string \<Rightarrow> string list \<Rightarrow> (path \<Rightarrow> node option) \<Rightarrow> (path \<Rightarrow> node option)"
  fs_effect :: "nat \<Rightarrow> sysop \<Rightarrow> (path \<Rightarrow> node option) \<Rightarrow> (path \<Rightarrow> node option)"
  http_Get :: "nat \<Rightarrow> string \<Rightarrow> bool"
  stdin_ReadString :: "nat \<Rightarrow> string"
  errno_Error :: "error \<Rightarrow> string"

text \<open>
  \<^verbatim>\<open>err.Error()\<close>: the text of an error.  For a \<open>PathError\<close> it is the operation, the
  path, a colon and the text of the error number.
\<close>

fun error_Error :: "platform \<Rightarrow> error \<Rightarrow> string" where
  "error_Error P (PathError op p err) = op @ '' '' @ p @ '': '' @ error_Error P err"
| "error_Error P (CmdError text) = text"
| "error_Error P err = errno_Error P err"

text \<open>
  The state of a run: the file system, the number of calls made and of clock readings
  taken so far, the files created so far (a history variable), the \<^verbatim>\<open>PATH\<close> variable of
  the process, the two globals of the program (\<open>failures\<close>, \<open>scriptRoot\<close>) and what was
  printed and executed.
\<close>

record world =
  nodes :: "path \<Rightarrow> node option"
  tick :: nat
  clock_reads :: nat
  created :: "path list"
  env_PATH :: string
  failures :: "string list"
  scriptRoot :: string
  trace :: "event list"

definition advance :: "world \<Rightarrow> world" where
  "advance w = w\<lparr>tick := Suc (tick w)\<rparr>"

definition info_of :: "node \<Rightarrow> fileinfo" where
  "info_of n = (case n of
      File d t \<Rightarrow> \<lparr>fi_isDir = False, fi_size = length d, fi_modTime = t\<rparr>
    | Dir \<Rightarrow> \<lparr>fi_isDir = True, fi_size = 0, fi_modTime = 0\<rparr>)"

text \<open>
  \<^verbatim>\<open>os.Stat\<close>: the node's description, \<open>ErrNotExist\<close> for a missing path.  On Windows
  the operation named in its error is \<^verbatim>\<open>CreateFile\<close>; the program never prints it.
\<close>

definition os_Stat :: "platform \<Rightarrow> path \<Rightarrow> world \<Rightarrow> (error + fileinfo) \<times> world" where
  "os_Stat P p w =
     (if io_fault P (tick w) (OpStat p) then (Inl (PathError ''CreateFile'' p ErrFault), advance w)
      else case nodes w p of
             None \<Rightarrow> (Inl (PathError ''CreateFile'' p ErrNotExist), advance w)
           | Some n \<Rightarrow> (Inr (info_of n), advance w))"

text \<open>
  \<^verbatim>\<open>os.MkdirAll\<close>: succeeds on a directory, fails on a regular file, creates the directory
  otherwise (its ancestors are not tracked).
\<close>

definition os_MkdirAll :: "platform \<Rightarrow> path \<Rightarrow> world \<Rightarrow> error option \<times> world" where
  "os_MkdirAll P d w =
     (if io_fault P (tick w) (OpMkdirAll d) then (Some (PathError ''mkdir'' d ErrFault), advance w)
      else case nodes w d of
             Some (File c t) \<Rightarrow> (Some (PathError ''mkdir'' d ErrNotDir), advance w)
           | Some Dir \<Rightarrow> (None, advance w)
           | None \<Rightarrow> (None, advance (w\<lparr>nodes := (nodes w)(d \<mapsto> Dir)\<rparr>)))"

text \<open>
  \<^verbatim>\<open>os.Open\<close>: a handle for reading, here the path itself.  A directory can be opened;
  reading from it fails.
\<close>

definition os_Open :: "platform \<Rightarrow> path \<Rightarrow> world \<Rightarrow> (error + path) \<times> world" where
  "os_Open P p w =
     (if io_fault P (tick w) (OpOpen p) then (Inl (PathError ''open'' p ErrFault), advance w)
      else case nodes w p of
             None \<Rightarrow> (Inl (PathError ''open'' p ErrNotExist), advance w)
           | Some n \<Rightarrow> (Inr p, advance w))"

text \<open>
  \<^verbatim>\<open>os.Create\<close>: creates the file or truncates it; fails on a directory.  The file is
  empty afterwards, also when the path is open for reading.
\<close>

definition os_Create :: "platform \<Rightarrow> path \<Rightarrow> world \<Rightarrow> (error + path) \<times> world" where
  "os_Create P p w =
     (if io_fault P (tick w) (OpCreate p) then (Inl (PathError ''open'' p ErrFault), advance w)
      else case nodes w p of
             Some Dir \<Rightarrow> (Inl (PathError ''open'' p ErrIsDir), advance w)
           | _ \<Rightarrow> (Inr p, advance (w\<lparr>nodes := (nodes w)(p \<mapsto> File [] (fs_time P (tick w))),
                                     created := created w @ [p]\<rparr>)))"

text \<open>
  Reading a handle to its end: the bytes delivered and the error that stopped the read, if
  any.  A failing read delivers a prefix of the file.
\<close>

definition io_read :: "platform \<Rightarrow> path \<Rightarrow> world \<Rightarrow> (string \<times> error option) \<times> world" where
  "io_read P f w =
     (case nodes w f of
        Some (File d t) \<Rightarrow>
          if io_fault P (tick w) (OpRead f)
          then ((take (io_partial P (tick w)) d, Some (PathError ''read'' f ErrFault)), advance w)
          else ((d, None), advance w)
      | Some Dir \<Rightarrow> (([], Some (PathError ''read'' f ErrIsDir)), advance w)
      | None \<Rightarrow> (([], Some (PathError ''read'' f ErrNotExist)), advance w))"

text \<open>Writing bytes to a handle that \<open>os_Create\<close> returned; a failing write stores a prefix.\<close>

definition io_write :: "platform \<Rightarrow> path \<Rightarrow> string \<Rightarrow> world \<Rightarrow> error option \<times> world" where
  "io_write P f d w =
     (if io_fault P (tick w) (OpWrite f)
      then (Some (PathError ''write'' f ErrFault),
            advance (w\<lparr>nodes := (nodes w)(f \<mapsto> File (take (io_partial P (tick w)) d) (fs_time P (tick w)))\<rparr>))
      else (None, advance (w\<lparr>nodes := (nodes w)(f \<mapsto> File d (fs_time P (tick w)))\<rparr>)))"

text \<open>\<^verbatim>\<open>io.Copy(out, in)\<close> between two files: what was read is written, then the read error counts.\<close>

definition io_Copy :: "platform \<Rightarrow> path \<Rightarrow> path \<Rightarrow> world \<Rightarrow> error option \<times> world" where
  "io_Copy P out inp w =
     (case io_read P inp w of ((d, rerr), w1) \<Rightarrow>
        (case io_write P out d w1 of (werr, w2) \<Rightarrow>
           (case werr of Some e \<Rightarrow> (Some e, w2) | None \<Rightarrow> (rerr, w2))))"

section \<open>Reporting\<close>

definition emit :: "event \<Rightarrow> world \<Rightarrow> world" where
  "emit e w = w\<lparr>trace := trace w @ [e]\<rparr>"

definition writeStep :: "string \<Rightarrow> world \<Rightarrow> world" where
  "writeStep msg w = emit (EvStep msg) w"

definition writeSuccess :: "string \<Rightarrow> world \<Rightarrow> world" where
  "writeSuccess msg w = emit (EvSuccess msg) w"

definition writeSkip :: "string \<Rightarrow> world \<Rightarrow> world" where
  "writeSkip msg w = emit (EvSkip msg) w"

definition writeFail :: "string \<Rightarrow> world \<Rightarrow> world" where
  "writeFail msg w = (emit (EvFail msg) w)\<lparr>failures := failures w @ [msg]\<rparr>"

section \<open>Deploying a configuration file\<close>

text \<open>\<open>fileHash\<close>: the hexadecimal SHA-256 of the file's bytes, or the error of opening or reading.\<close>

definition fileHash :: "platform \<Rightarrow> path \<Rightarrow> world \<Rightarrow> (error + string) \<times> world" where
  "fileHash P p w =
     (case os_Open P p w of
        (Inl err, w1) \<Rightarrow> (Inl err, w1)
      | (Inr f, w1) \<Rightarrow>
          (case io_read P f w1 of
             ((d, Some err), w2) \<Rightarrow> (Inl err, w2)
           | ((d, None), w2) \<Rightarrow> (Inr (sha256_hex P d), w2)))"

definition copyFile :: "platform \<Rightarrow> path \<Rightarrow> path \<Rightarrow> world \<Rightarrow> error option \<times> world" where
  "copyFile P src dst w =
     (case os_Open P src w of
        (Inl err, w1) \<Rightarrow> (Some err, w1)
      | (Inr inp, w1) \<Rightarrow>
          (case os_Create P dst w1 of
             (Inl err, w2) \<Rightarrow> (Some err, w2)
           | (Inr out, w2) \<Rightarrow> io_Copy P out inp w2))"

text \<open>Lines 187 to 191 of \<open>deployConfigFile\<close>: the copy of the source onto the target.\<close>

definition deploy_copy :: "platform \<Rightarrow> string \<Rightarrow> path \<Rightarrow> path \<Rightarrow> world \<Rightarrow> world" where
  "deploy_copy P srcRel sourcePath target w =
     (case copyFile P sourcePath target w of
        (Some err, w1) \<Rightarrow> writeFail (''Failed to deploy '' @ srcRel @ '': '' @ error_Error P err) w1
      | (None, w1) \<Rightarrow> writeSuccess (''Deployed '' @ srcRel @ '' -> '' @ target) w1)"

text \<open>\<^verbatim>\<open>time.Now().Format("20060102-150405")\<close>: the next reading of the clock, formatted.\<close>

definition time_stamp :: "platform \<Rightarrow> world \<Rightarrow> string \<times> world" where
  "time_stamp P w =
     (time_Format P (time_Now P (clock_reads w)), w\<lparr>clock_reads := Suc (clock_reads w)\<rparr>)"

text \<open>
  Lines 173 to 185: the target exists.  The result says whether the function returns here
  (\<open>True\<close>: up to date) or goes on to the copy.
\<close>

definition deploy_existing :: "platform \<Rightarrow> path \<Rightarrow> path \<Rightarrow> world \<Rightarrow> bool \<times> world" where
  "deploy_existing P sourcePath target w =
     (case fileHash P sourcePath w of (srcHash, w1) \<Rightarrow>
        (case fileHash P target w1 of (tgtHash, w2) \<Rightarrow>
           if \<not> isl srcHash \<and> \<not> isl tgtHash \<and> srcHash = tgtHash
           then (True, writeSkip (target @ '' is up to date'') w2)
           else
             (case time_stamp P w2 of (timestamp, w3) \<Rightarrow>
                (let backupPath = target @ ''.bak.'' @ timestamp in
                   (case copyFile P target backupPath w3 of (ignored, w4) \<Rightarrow>
                      (False, emit (EvInfo (''Backed up existing file to '' @ backupPath)) w4))))))"

definition deployConfigFile :: "platform \<Rightarrow> string \<Rightarrow> path \<Rightarrow> world \<Rightarrow> world" where
  "deployConfigFile P srcRel target w =
     (let sourcePath = filepath_Join P [scriptRoot w, srcRel] in
        (case os_Stat P sourcePath w of (st, w1) \<Rightarrow>
           if os_IsNotExist (err_of st) then writeFail (''Source config not found: '' @ srcRel) w1
           else
             (let targetDir = filepath_Dir P target in
                (case os_MkdirAll P targetDir w1 of
                   (Some err, w2) \<Rightarrow> writeFail (''Failed to create directory: '' @ targetDir) w2
                 | (None, w2) \<Rightarrow>
                     (case os_Stat P target w2 of
                        (Inl err, w3) \<Rightarrow> deploy_copy P srcRel sourcePath target w3
                      | (Inr fi, w3) \<Rightarrow>
                          (case deploy_existing P sourcePath target w3 of
                             (True, w4) \<Rightarrow> w4
                           | (False, w4) \<Rightarrow> deploy_copy P srcRel sourcePath target w4))))))"

section \<open>External commands\<close>

text \<open>
  An external command is opaque: the outside world says what it prints and with which
  error, if any, running it ends (\<open>exec_result\<close>), and what it does to the file system
  (\<open>exec_effect\<close>).
  Every invocation is recorded in the trace.
\<close>

definition run_external :: "platform \<Rightarrow> string \<Rightarrow> string list \<Rightarrow> world \<Rightarrow> (string \<times> error option) \<times> world" where
  "run_external P name args w =
     (case exec_result P (tick w) name args of (out, err) \<Rightarrow>
        ((out, err),
         advance (emit (EvExec name args) (w\<lparr>nodes := exec_effect P (tick w) name args (nodes w)\<rparr>))))"

text \<open>\<^verbatim>\<open>strings.Contains(s, substr)\<close>.\<close>

definition strings_Contains :: "string \<Rightarrow> string \<Rightarrow> bool" where
  "strings_Contains s substr = sublist substr s"

text \<open>\<^verbatim>\<open>strings.IndexByte(s, c)\<close>: the offset of the first \<open>c\<close>, or \<open>-1\<close>.\<close>

definition strings_IndexByte :: "string \<Rightarrow> char \<Rightarrow> int" where
  "strings_IndexByte s c = (if c \<in> set s then int (length (takeWhile (\<lambda>x. x \<noteq> c) s)) else -1)"

text \<open>The single quote, which a string literal cannot hold.\<close>

definition quote :: string where
  "quote = [CHR 0x27]"

definition refreshPath_script :: string where
  "refreshPath_script =
     ''[Environment]::GetEnvironmentVariable('' @ quote @ ''Path'' @ quote @ '','' @ quote @ ''Machine'' @ quote
     @ '') + '' @ quote @ '';'' @ quote
     @ '' + [Environment]::GetEnvironmentVariable('' @ quote @ ''Path'' @ quote @ '','' @ quote @ ''User'' @ quote @ '')''"

definition refreshPath :: "platform \<Rightarrow> world \<Rightarrow> world" where
  "refreshPath P w =
     (case run_external P ''powershell'' [''-NoProfile'', ''-Command'', refreshPath_script] w of
        ((out, None), w1) \<Rightarrow> w1\<lparr>env_PATH := strings_TrimSpace P out\<rparr>
      | ((out, Some err), w1) \<Rightarrow> w1)"

definition commandExists :: "platform \<Rightarrow> string \<Rightarrow> world \<Rightarrow> bool \<times> world" where
  "commandExists P name w = (exec_LookPath P (tick w) (env_PATH w) name, advance w)"

definition runCmd :: "platform \<Rightarrow> string \<Rightarrow> string list \<Rightarrow> world \<Rightarrow> (string \<times> error option) \<times> world" where
  "runCmd P name args w =
     (case run_external P name args w of ((out, err), w1) \<Rightarrow> ((strings_TrimSpace P out, err), w1))"

definition runCmdPassthrough :: "platform \<Rightarrow> string \<Rightarrow> string list \<Rightarrow> world \<Rightarrow> error option \<times> world" where
  "runCmdPassthrough P name args w =
     (case run_external P name args w of ((out, err), w1) \<Rightarrow> (err, w1))"

section \<open>Installing packages\<close>

definition winget_list_args :: "string \<Rightarrow> string list" where
  "winget_list_args packageID = [''list'', ''--id'', packageID, ''--accept-source-agreements'']"

definition winget_install_args :: "string \<Rightarrow> string list" where
  "winget_install_args packageID =
     [''install'', ''--id'', packageID, ''--exact'', ''--accept-source-agreements'',
      ''--accept-package-agreements'', ''--silent'']"

definition installWingetPackage :: "platform \<Rightarrow> string \<Rightarrow> string \<Rightarrow> world \<Rightarrow> world" where
  "installWingetPackage P packageID displayName w =
     (case runCmd P ''winget'' (winget_list_args packageID) w of ((out, ignored), w1) \<Rightarrow>
        if strings_Contains out packageID then writeSkip (displayName @ '' already installed'') w1
        else
          (case runCmdPassthrough P ''winget'' (winget_install_args packageID)
                  (emit (EvInfo (''Installing '' @ displayName @ ''...'')) w1) of
             (Some err, w2) \<Rightarrow>
               writeFail (''Failed to install '' @ displayName @ '' ('' @ packageID @ '')'') w2
           | (None, w2) \<Rightarrow> writeSuccess (displayName @ '' installed'') (refreshPath P w2)))"

text \<open>Lines 126 to 132 of \<open>installScoopPackage\<close>: the bucket is added when it is not listed.\<close>

definition scoop_add_bucket :: "platform \<Rightarrow> string \<Rightarrow> world \<Rightarrow> world" where
  "scoop_add_bucket P bucket w =
     (if bucket \<noteq> [] then
        (case runCmd P ''scoop'' [''bucket'', ''list''] w of ((bucketOut, ignored), w1) \<Rightarrow>
           if \<not> strings_Contains bucketOut bucket
           then snd (runCmd P ''scoop'' [''bucket'', ''add'', bucket]
                       (emit (EvInfo (''Adding scoop bucket '' @ quote @ bucket @ quote @ ''...'')) w1))
           else w1)
      else w)"

definition installScoopPackage :: "platform \<Rightarrow> string \<Rightarrow> string \<Rightarrow> world \<Rightarrow> world" where
  "installScoopPackage P pkg bucket w =
     (case runCmd P ''scoop'' [''list''] w of ((out, ignored), w1) \<Rightarrow>
        if strings_Contains out pkg then writeSkip (pkg @ '' already installed (scoop)'') w1
        else
          (case runCmdPassthrough P ''scoop'' [''install'', pkg]
                  (emit (EvInfo (''Installing '' @ pkg @ '' via scoop...'')) (scoop_add_bucket P bucket w1)) of
             (Some err, w2) \<Rightarrow> writeFail (''Failed to install '' @ pkg @ '' via scoop'') w2
           | (None, w2) \<Rightarrow> writeSuccess (pkg @ '' installed (scoop)'') (refreshPath P w2)))"

section \<open>Git configuration and prompts\<close>

definition setGitConfigIfMissing :: "platform \<Rightarrow> string \<Rightarrow> string \<Rightarrow> world \<Rightarrow> world" where
  "setGitConfigIfMissing P key val w =
     (case runCmd P ''git'' [''config'', ''--global'', ''--get'', key] w of ((current, ignored), w1) \<Rightarrow>
        if current \<noteq> [] then writeSkip (''git '' @ key @ '' already set to '' @ quote @ current @ quote) w1
        else writeSuccess (''git '' @ key @ '' set to '' @ quote @ val @ quote)
               (snd (runCmd P ''git'' [''config'', ''--global'', key, val] w1)))"

definition promptInput :: "platform \<Rightarrow> string \<Rightarrow> world \<Rightarrow> string \<times> world" where
  "promptInput P prompt w =
     (strings_TrimSpace P (stdin_ReadString P (tick w)), advance (emit (EvInfo prompt) w))"

section \<open>The steps of main\<close>

text \<open>
  \<open>main\<close> is one function in the source; its blocks are separate definitions here, named
  after the comments that head them, and \<open>main\<close> runs them in the source's order.
\<close>

text \<open>\<^verbatim>\<open>os.Rename\<close> and \<open>os.RemoveAll\<close> act on whole directory trees; what they do to the file
  system is left to the platform.  \<open>main\<close> ignores their errors.\<close>

definition os_Rename :: "platform \<Rightarrow> path \<Rightarrow> path \<Rightarrow> world \<Rightarrow> error option \<times> world" where
  "os_Rename P old new w =
     (if io_fault P (tick w) (OpRename old new) then (Some ErrFault, advance w)
      else (None, advance (w\<lparr>nodes := fs_effect P (tick w) (OpRename old new) (nodes w)\<rparr>)))"

definition os_RemoveAll :: "platform \<Rightarrow> path \<Rightarrow> world \<Rightarrow> error option \<times> world" where
  "os_RemoveAll P p w =
     (if io_fault P (tick w) (OpRemoveAll p) then (Some ErrFault, advance w)
      else (None, advance (w\<lparr>nodes := fs_effect P (tick w) (OpRemoveAll p) (nodes w)\<rparr>)))"

text \<open>\<^verbatim>\<open>client.Get(url)\<close> with its ten seconds of timeout: the outside world says whether it answers.\<close>

definition http_probe :: "platform \<Rightarrow> string \<Rightarrow> world \<Rightarrow> error option \<times> world" where
  "http_probe P url w = (if http_Get P (tick w) url then None else Some ErrFault, advance w)"

text \<open>The console mode has no part in what the model observes.\<close>

definition enableVirtualTerminal :: "world \<Rightarrow> world" where
  "enableVirtualTerminal w = w"

definition banner :: "world \<Rightarrow> world" where
  "banner w = emit (EvInfo ''  Windows Dev Environment Setup'') w"

definition step_scoop :: "platform \<Rightarrow> world \<Rightarrow> world" where
  "step_scoop P w =
     (case commandExists P ''scoop'' w of
        (True, w1) \<Rightarrow> writeSkip ''Scoop already installed'' w1
      | (False, w1) \<Rightarrow>
          (case runCmdPassthrough P ''powershell''
                  [''-NoProfile'', ''-Command'', ''Invoke-RestMethod get.scoop.sh | Invoke-Expression'']
                  (emit (EvInfo ''Installing Scoop...'') w1) of
             (Some err, w2) \<Rightarrow> writeFail (''Failed to install Scoop: '' @ error_Error P err) w2
           | (None, w2) \<Rightarrow> writeSuccess ''Scoop installed'' (refreshPath P w2)))"

definition git_identity_name :: "platform \<Rightarrow> string \<Rightarrow> world \<Rightarrow> world" where
  "git_identity_name P gitName w =
     (if gitName = [] then
        (case promptInput P ''   Enter your name (e.g. John Doe): ''
                (emit (EvInfo ''Git user.name not configured.'') w) of
           (inputName, w1) \<Rightarrow>
             if inputName \<noteq> []
             then writeSuccess (''git user.name set to '' @ quote @ inputName @ quote)
                    (snd (runCmd P ''git'' [''config'', ''--global'', ''user.name'', inputName] w1))
             else w1)
      else writeSkip (''git user.name already set to '' @ quote @ gitName @ quote) w)"

definition git_identity_email :: "platform \<Rightarrow> string \<Rightarrow> world \<Rightarrow> world" where
  "git_identity_email P gitEmail w =
     (if gitEmail = [] then
        (case promptInput P ''   Enter your email (e.g. john@example.com): ''
                (emit (EvInfo ''Git user.email not configured.'') w) of
           (inputEmail, w1) \<Rightarrow>
             if inputEmail \<noteq> []
             then writeSuccess (''git user.email set to '' @ quote @ inputEmail @ quote)
                    (snd (runCmd P ''git'' [''config'', ''--global'', ''user.email'', inputEmail] w1))
             else w1)
      else writeSkip (''git user.email already set to '' @ quote @ gitEmail @ quote) w)"

definition git_identity :: "platform \<Rightarrow> world \<Rightarrow> world" where
  "git_identity P w =
     (case commandExists P ''git'' w of
        (False, w1) \<Rightarrow> w1
      | (True, w1) \<Rightarrow>
          (case runCmd P ''git'' [''config'', ''--global'', ''--get'', ''user.name''] w1 of
             ((gitName, ignored), w2) \<Rightarrow>
               (case runCmd P ''git'' [''config'', ''--global'', ''--get'', ''user.email''] w2 of
                  ((gitEmail, ignored'), w3) \<Rightarrow>
                    git_identity_email P gitEmail (git_identity_name P gitName w3))))"

definition step_node :: "platform \<Rightarrow> world \<Rightarrow> world" where
  "step_node P w =
     (case commandExists P ''node'' w of
        (True, w1) \<Rightarrow>
          (case runCmd P ''node'' [''--version''] w1 of
             ((nodeVersion, ignored), w2) \<Rightarrow>
               writeSkip (''Node.js already installed ('' @ nodeVersion @ '')'') w2)
      | (False, w1) \<Rightarrow>
          (case commandExists P ''volta'' w1 of
             (True, w2) \<Rightarrow>
               (case runCmdPassthrough P ''volta'' [''install'', ''node'']
                       (emit (EvInfo ''Installing Node.js LTS via Volta...'') w2) of
                  (Some err, w3) \<Rightarrow> writeFail ''Failed to install Node.js via Volta'' w3
                | (None, w3) \<Rightarrow> writeSuccess ''Node.js LTS installed via Volta'' (refreshPath P w3))
           | (False, w2) \<Rightarrow> writeFail ''Volta not found - cannot install Node.js'' w2))"

text \<open>Lines 389 to 394: an existing nvim configuration is moved aside.\<close>

definition lazyvim_backup :: "platform \<Rightarrow> path \<Rightarrow> world \<Rightarrow> world" where
  "lazyvim_backup P nvimConfigDir w =
     (case os_Stat P nvimConfigDir w of
        (Inl err, w1) \<Rightarrow> w1
      | (Inr fi, w1) \<Rightarrow>
          (case time_stamp P w1 of (timestamp, w2) \<Rightarrow>
             (let backupDir = nvimConfigDir @ ''.bak.'' @ timestamp in
                snd (os_Rename P nvimConfigDir backupDir
                       (emit (EvInfo (''Backing up existing nvim config to '' @ backupDir)) w2)))))"

definition step_lazyvim :: "platform \<Rightarrow> world \<Rightarrow> world" where
  "step_lazyvim P w =
     (let localAppData = os_Getenv P ''LOCALAPPDATA'';
          nvimConfigDir = filepath_Join P [localAppData, ''nvim''];
          lazyVimMarker = filepath_Join P [nvimConfigDir, ''lua'', ''config'', ''lazy.lua'']
      in case os_Stat P lazyVimMarker w of
           (Inr fi, w1) \<Rightarrow> writeSkip ''LazyVim already configured'' w1
         | (Inl err, w1) \<Rightarrow>
             (case commandExists P ''git'' w1 of
                (True, w2) \<Rightarrow>
                  (case runCmdPassthrough P ''git''
                          [''clone'', ''https://github.com/LazyVim/starter'', nvimConfigDir]
                          (emit (EvInfo ''Cloning LazyVim starter...'')
                             (lazyvim_backup P nvimConfigDir w2)) of
                     (Some err', w3) \<Rightarrow> writeFail ''Failed to clone LazyVim starter'' w3
                   | (None, w3) \<Rightarrow>
                       writeSuccess (''LazyVim starter cloned to '' @ nvimConfigDir)
                         (snd (os_RemoveAll P (filepath_Join P [nvimConfigDir, ''.git'']) w3)))
              | (False, w2) \<Rightarrow> writeFail ''Git not found - cannot clone LazyVim starter'' w2))"

definition deploy_configs :: "platform \<Rightarrow> world \<Rightarrow> world" where
  "deploy_configs P w =
     (let userProfile = os_Getenv P ''USERPROFILE'';
          appData = os_Getenv P ''APPDATA'';
          w1 = deployConfigFile P (filepath_Join P [''configs'', ''wezterm'', ''.wezterm.lua''])
                 (filepath_Join P [userProfile, ''.wezterm.lua'']) w;
          w2 = deployConfigFile P (filepath_Join P [''configs'', ''nushell'', ''config.nu''])
                 (filepath_Join P [appData, ''nushell'', ''config.nu'']) w1;
          w3 = deployConfigFile P (filepath_Join P [''configs'', ''nushell'', ''env.nu''])
                 (filepath_Join P [appData, ''nushell'', ''env.nu'']) w2
      in deployConfigFile P (filepath_Join P [''configs'', ''starship'', ''starship.toml''])
           (filepath_Join P [userProfile, ''.config'', ''starship.toml'']) w3)"

definition git_defaults :: "platform \<Rightarrow> world \<Rightarrow> world" where
  "git_defaults P w =
     (case commandExists P ''git'' w of
        (True, w1) \<Rightarrow>
          (let w2 = setGitConfigIfMissing P ''core.editor'' ''nvim'' w1;
               w3 = setGitConfigIfMissing P ''core.autocrlf'' ''true'' w2;
               w4 = setGitConfigIfMissing P ''init.defaultBranch'' ''main'' w3;
               w5 = setGitConfigIfMissing P ''pull.rebase'' ''true'' w4;
               w6 = setGitConfigIfMissing P ''diff.colorMoved'' ''default'' w5
           in setGitConfigIfMissing P ''merge.conflictstyle'' ''diff3'' w6)
      | (False, w1) \<Rightarrow> writeFail ''Git not found - skipping git config'' w1)"

text \<open>The table of tools that the verification walks: name, command and version flag.\<close>

record tool =
  tool_name :: string
  tool_cmd :: string
  tool_args :: string

definition tools :: "tool list" where
  "tools =
     [\<lparr>tool_name = ''git'', tool_cmd = ''git'', tool_args = ''--version''\<rparr>,
      \<lparr>tool_name = ''scoop'', tool_cmd = ''scoop'', tool_args = ''--version''\<rparr>,
      \<lparr>tool_name = ''zig'', tool_cmd = ''zig'', tool_args = ''version''\<rparr>,
      \<lparr>tool_name = ''rg'', tool_cmd = ''rg'', tool_args = ''--version''\<rparr>,
      \<lparr>tool_name = ''fd'', tool_cmd = ''fd'', tool_args = ''--version''\<rparr>,
      \<lparr>tool_name = ''volta'', tool_cmd = ''volta'', tool_args = ''--version''\<rparr>,
      \<lparr>tool_name = ''node'', tool_cmd = ''node'', tool_args = ''--version''\<rparr>,
      \<lparr>tool_name = ''nu'', tool_cmd = ''nu'', tool_args = ''--version''\<rparr>,
      \<lparr>tool_name = ''starship'', tool_cmd = ''starship'', tool_args = ''--version''\<rparr>,
      \<lparr>tool_name = ''wezterm'', tool_cmd = ''wezterm'', tool_args = ''--version''\<rparr>,
      \<lparr>tool_name = ''nvim'', tool_cmd = ''nvim'', tool_args = ''--version''\<rparr>]"

text \<open>The format \<^verbatim>\<open>%-16s\<close>: the name, padded with blanks to sixteen bytes.\<close>

definition pad16 :: "string \<Rightarrow> string" where
  "pad16 s = s @ replicate (16 - length s) (CHR '' '')"

text \<open>The body of the loop over the tools.\<close>

definition verify_tool :: "platform \<Rightarrow> tool \<Rightarrow> world \<Rightarrow> world" where
  "verify_tool P t w =
     (case commandExists P (tool_cmd t) w of
        (True, w1) \<Rightarrow>
          (case runCmd P (tool_cmd t) [tool_args t] w1 of
             ((out, ignored), w2) \<Rightarrow>
               (let idx = strings_IndexByte out (CHR 0x0A);
                    version = (if idx \<noteq> -1 then take (nat idx) out else out)
                in emit (EvInfo (pad16 (tool_name t) @ extractVersion version)) w2))
      | (False, w1) \<Rightarrow> emit (EvInfo (pad16 (tool_name t) @ ''NOT FOUND'')) w1)"

definition verify_installations :: "platform \<Rightarrow> world \<Rightarrow> world" where
  "verify_installations P w =
     foldl (\<lambda>v t. verify_tool P t v)
       (emit (EvInfo ''Tool            Version'') (refreshPath P w)) tools"

text \<open>The summary: the failures, or the news that there are none, and the next steps.\<close>

definition summary :: "world \<Rightarrow> world" where
  "summary w = emit (EvInfo ''Next steps:'') (emit (EvSummary (failures w)) w)"

text \<open>Lines 270 to 515: everything after the preflight checks.\<close>

definition provision :: "platform \<Rightarrow> world \<Rightarrow> world" where
  "provision P w =
     (let w = step_scoop P (writeStep ''Step 1/13: Scoop (package manager)'' w);
          w = installWingetPackage P ''Git.Git'' ''Git'' (writeStep ''Step 2/13: Git'' w);
          w = git_identity P w;
          w = installScoopPackage P ''JetBrainsMono-NF'' ''nerd-fonts''
                (writeStep ''Step 3/13: JetBrainsMono Nerd Font'' w);
          w = installWingetPackage P ''zig.zig'' ''Zig''
                (writeStep ''Step 4/13: Zig (C compiler for Treesitter)'' w);
          w = installWingetPackage P ''BurntSushi.ripgrep.MSVC'' ''ripgrep''
                (writeStep ''Step 5/13: ripgrep'' w);
          w = installWingetPackage P ''sharkdp.fd'' ''fd'' (writeStep ''Step 6/13: fd'' w);
          w = installWingetPackage P ''Volta.Volta'' ''Volta''
                (writeStep ''Step 7/13: Volta (JS toolchain manager)'' w);
          w = step_node P (writeStep ''Step 8/13: Node.js LTS (via Volta)'' w);
          w = installWingetPackage P ''Nushell.Nushell'' ''Nushell'' (writeStep ''Step 9/13: Nushell'' w);
          w = installWingetPackage P ''Starship.Starship'' ''Starship''
                (writeStep ''Step 10/13: Starship (prompt)'' w);
          w = installWingetPackage P ''wez.wezterm'' ''WezTerm'' (writeStep ''Step 11/13: WezTerm'' w);
          w = installWingetPackage P ''Neovim.Neovim'' ''Neovim'' (writeStep ''Step 12/13: Neovim'' w);
          w = step_lazyvim P (writeStep ''Step 13/13: LazyVim (Neovim distribution)'' w);
          w = deploy_configs P (writeStep ''Deploying configuration files'' w);
          w = git_defaults P (writeStep ''Configuring Git defaults'' w);
          w = verify_installations P (writeStep ''Verifying installations'' w)
      in summary w)"

text \<open>
  \<open>main\<close>: the exit code of the process and the final state.  The three calls of
  \<^verbatim>\<open>os.Exit(1)\<close> end the run where they stand; a run that reaches the end of \<open>main\<close> exits
  with code \<open>0\<close>.
\<close>

definition main :: "platform \<Rightarrow> world \<Rightarrow> nat \<times> world" where
  "main P w =
     (case os_Executable P of
        Inl err \<Rightarrow>
          (1, emit (EvInfo (''ERROR: Cannot determine executable path: '' @ error_Error P err))
                (enableVirtualTerminal w))
      | Inr exePath \<Rightarrow>
          (case commandExists P ''winget''
                  (writeStep ''Running preflight checks''
                     (banner ((enableVirtualTerminal w)\<lparr>scriptRoot := filepath_Dir P exePath\<rparr>))) of
             (False, w1) \<Rightarrow> (1, emit (EvInfo ''ERROR: winget is not available.'') w1)
           | (True, w1) \<Rightarrow>
               (case http_probe P ''https://www.github.com'' (writeSuccess ''winget found'' w1) of
                  (Some err, w2) \<Rightarrow>
                    (1, emit (EvInfo ''ERROR: Cannot reach github.com. Check your internet connection.'') w2)
                | (None, w2) \<Rightarrow> (0, provision P (writeSuccess ''Internet connectivity OK'' w2)))))"

section \<open>Observing a call\<close>

text \<open>
  What a call from state \<open>w\<close> to state \<open>w'\<close> printed, created and logged as failed: the
  part of each history that the call appended.
\<close>

definition new_events :: "world \<Rightarrow> world \<Rightarrow> event list" where
  "new_events w w' = drop (length (trace w)) (trace w')"

definition new_created :: "world \<Rightarrow> world \<Rightarrow> path list" where
  "new_created w w' = drop (length (created w)) (created w')"

definition new_failures :: "world \<Rightarrow> world \<Rightarrow> string list" where
  "new_failures w w' = drop (length (failures w)) (failures w')"

text \<open>The bytes of the regular file at a path, and their fingerprint.\<close>

definition content_at :: "world \<Rightarrow> path \<Rightarrow> string option" where
  "content_at w p = (case nodes w p of Some (File d t) \<Rightarrow> Some d | Some Dir \<Rightarrow> None | None \<Rightarrow> None)"

definition fingerprint :: "platform \<Rightarrow> world \<Rightarrow> path \<Rightarrow> string option" where
  "fingerprint P w p = map_option (sha256_hex P) (content_at w p)"

text \<open>The reports of \<open>deployConfigFile\<close>.\<close>

definition Deployed :: "string \<Rightarrow> path \<Rightarrow> event" where
  "Deployed srcRel target = EvSuccess (''Deployed '' @ srcRel @ '' -> '' @ target)"

definition UpToDate :: "path \<Rightarrow> event" where
  "UpToDate target = EvSkip (target @ '' is up to date'')"

text \<open>
  The backup step of a call was taken: it printed that it backed the target up.  A backup
  of \<open>target\<close> was created: a file named \<open>target.bak.\<close> and some suffix.
\<close>

definition backup_name :: "platform \<Rightarrow> path \<Rightarrow> world \<Rightarrow> path" where
  "backup_name P target w = target @ ''.bak.'' @ time_Format P (time_Now P (clock_reads w))"

definition BackedUp :: "path \<Rightarrow> event" where
  "BackedUp backupPath = EvInfo (''Backed up existing file to '' @ backupPath)"

definition is_backup_of :: "path \<Rightarrow> path \<Rightarrow> bool" where
  "is_backup_of target p = prefix (target @ ''.bak.'') p"

definition backup_created :: "path \<Rightarrow> world \<Rightarrow> world \<Rightarrow> bool" where
  "backup_created target w w' = list_ex (is_backup_of target) (new_created w w')"

section \<open>The environment of a call\<close>

text \<open>
  The faults are steady from state \<open>w\<close> on when every later call meets the same ones: \<open>F op\<close>
  says that \<open>op\<close> fails.  Then the file system before a call tells which of its library
  calls succeed: \<open>os.Stat\<close> finds a path, \<open>os.MkdirAll\<close> can make a directory, \<open>fileHash\<close>
  can compute a fingerprint, \<open>copyFile\<close> can copy.
\<close>

definition steady :: "platform \<Rightarrow> world \<Rightarrow> (sysop \<Rightarrow> bool) \<Rightarrow> bool" where
  "steady P w F \<longleftrightarrow> (\<forall>n. tick w \<le> n \<longrightarrow> io_fault P n = F)"

definition found :: "(sysop \<Rightarrow> bool) \<Rightarrow> world \<Rightarrow> path \<Rightarrow> bool" where
  "found F w p \<longleftrightarrow> \<not> F (OpStat p) \<and> nodes w p \<noteq> None"

definition hashable :: "(sysop \<Rightarrow> bool) \<Rightarrow> world \<Rightarrow> path \<Rightarrow> bool" where
  "hashable F w p \<longleftrightarrow> \<not> F (OpOpen p) \<and> \<not> F (OpRead p) \<and> content_at w p \<noteq> None"

definition copyable :: "(sysop \<Rightarrow> bool) \<Rightarrow> world \<Rightarrow> path \<Rightarrow> path \<Rightarrow> bool" where
  "copyable F w src dst \<longleftrightarrow>
     \<not> F (OpOpen src) \<and> \<not> F (OpRead src) \<and> content_at w src \<noteq> None
     \<and> \<not> F (OpCreate dst) \<and> \<not> F (OpWrite dst) \<and> nodes w dst \<noteq> Some Dir"

definition makeable :: "(sysop \<Rightarrow> bool) \<Rightarrow> world \<Rightarrow> path \<Rightarrow> bool" where
  "makeable F w d \<longleftrightarrow> \<not> F (OpMkdirAll d) \<and> content_at w d = None"

definition same_fingerprint :: "platform \<Rightarrow> (sysop \<Rightarrow> bool) \<Rightarrow> world \<Rightarrow> path \<Rightarrow> path \<Rightarrow> bool" where
  "same_fingerprint P F w a b \<longleftrightarrow>
     hashable F w a \<and> hashable F w b \<and> fingerprint P w a = fingerprint P w b"

definition sourcePath_of :: "platform \<Rightarrow> world \<Rightarrow> string \<Rightarrow> path" where
  "sourcePath_of P w srcRel = filepath_Join P [scriptRoot w, srcRel]"

section \<open>Observing a run\<close>

text \<open>The step headers and the failure messages among some events, in order.\<close>

definition steps_of :: "event list \<Rightarrow> string list" where
  "steps_of es = concat (map (\<lambda>e. case e of EvStep m \<Rightarrow> [m] | _ \<Rightarrow> []) es)"

definition fails_of :: "event list \<Rightarrow> string list" where
  "fails_of es = concat (map (\<lambda>e. case e of EvFail m \<Rightarrow> [m] | _ \<Rightarrow> []) es)"

text \<open>
  State \<open>w\<close> is reached from \<open>w0\<close> by printing only: the trace grew by some events, whose
  step headers are \<open>rs\<close> (latest first), and the failure log grew by exactly the failures
  among them.
\<close>

definition grown :: "world \<Rightarrow> string list \<Rightarrow> world \<Rightarrow> bool" where
  "grown w0 rs w \<longleftrightarrow>
     (\<exists>es. trace w = trace w0 @ es \<and> rev (steps_of es) = rs \<and> failures w = failures w0 @ fails_of es)"

text \<open>The step headers of a whole run, in the order of the source.\<close>

definition provision_steps :: "string list" where
  "provision_steps =
     [''Step 1/13: Scoop (package manager)'', ''Step 2/13: Git'',
      ''Step 3/13: JetBrainsMono Nerd Font'', ''Step 4/13: Zig (C compiler for Treesitter)'',
      ''Step 5/13: ripgrep'', ''Step 6/13: fd'', ''Step 7/13: Volta (JS toolchain manager)'',
      ''Step 8/13: Node.js LTS (via Volta)'', ''Step 9/13: Nushell'',
      ''Step 10/13: Starship (prompt)'', ''Step 11/13: WezTerm'', ''Step 12/13: Neovim'',
      ''Step 13/13: LazyVim (Neovim distribution)'', ''Deploying configuration files'',
      ''Configuring Git defaults'', ''Verifying installations'']"


text \<open>
  The preflight checks pass: the path of the executable is known, \<open>winget\<close> is found on the
  search path, and the probe of \<open>github.com\<close> gets an answer.
\<close>

definition preflight_ok :: "platform \<Rightarrow> world \<Rightarrow> bool" where
  "preflight_ok P w \<longleftrightarrow>
     \<not> isl (os_Executable P) \<and> exec_LookPath P (tick w) (env_PATH w) ''winget''
     \<and> http_Get P (Suc (tick w)) ''https://www.github.com''"

section \<open>A small platform for examples\<close>

text \<open>
  A platform and a state to run the program on: paths are joined with a slash, the
  fingerprint of a file is the file itself (a stand-in for SHA-256 that has no collisions),
  the clock stands still, external commands leave the file system alone, a command that
  fails exits with status \<open>1\<close>, and the error numbers have their Windows texts.  Its faults
  \<open>F\<close>, the path of the executable, the commands on the search path and the results of
  the commands are arguments.
\<close>

definition demo_Join :: "string list \<Rightarrow> string" where
  "demo_Join xs = (case xs of [] \<Rightarrow> [] | x # ys \<Rightarrow> foldl (\<lambda>a b. a @ ''/'' @ b) x ys)"

definition demo_Dir :: "string \<Rightarrow> string" where
  "demo_Dir p = rev (drop 1 (dropWhile (\<lambda>c. c \<noteq> CHR ''/'') (rev p)))"

definition demo_isSpace :: "char \<Rightarrow> bool" where
  "demo_isSpace c \<longleftrightarrow> c = CHR '' '' \<or> c = CHR 0x09 \<or> c = CHR 0x0A \<or> c = CHR 0x0B \<or> c = CHR 0x0C \<or> c = CHR 0x0D"

definition demo_TrimSpace :: "string \<Rightarrow> string" where
  "demo_TrimSpace s = rev (dropWhile demo_isSpace (rev (dropWhile demo_isSpace s)))"

fun demo_errno :: "error \<Rightarrow> string" where
  "demo_errno ErrNotExist = ''The system cannot find the file specified.''"
| "demo_errno ErrIsDir = ''is a directory''"
| "demo_errno ErrNotDir = ''not a directory''"
| "demo_errno err = ''Access is denied.''"

definition demo_platform ::
  "(sysop \<Rightarrow> bool) \<Rightarrow> (error + string) \<Rightarrow> (string \<Rightarrow> bool) \<Rightarrow> (string \<Rightarrow> string list \<Rightarrow> string \<times> bool) \<Rightarrow> platform" where
  "demo_platform F exe onPath res =
     \<lparr>sha256_hex = (\<lambda>d. d), filepath_Join = demo_Join, filepath_Dir = demo_Dir,
      strings_TrimSpace = demo_TrimSpace, time_Now = (\<lambda>k. k),
      time_Format = (\<lambda>t. ''20240101-120000''), fs_time = (\<lambda>n. n),
      io_fault = (\<lambda>n. F), io_partial = (\<lambda>n. 0),
      os_Getenv = (\<lambda>v. ''/home/'' @ v), os_Executable = exe,
      exec_LookPath = (\<lambda>n path name. onPath name),
      exec_result = (\<lambda>n name args. case res name args of
                       (out, ok) \<Rightarrow> (out, if ok then None else Some (CmdError ''exit status 1''))),
      exec_effect = (\<lambda>n name args fs. fs), fs_effect = (\<lambda>n op fs. fs),
      http_Get = (\<lambda>n url. True), stdin_ReadString = (\<lambda>n. []), errno_Error = demo_errno\<rparr>"

definition demo_world :: "(path \<Rightarrow> node option) \<Rightarrow> world" where
  "demo_world fs =
     \<lparr>nodes = fs, tick = 0, clock_reads = 0, created = [], env_PATH = [], failures = [],
      scriptRoot = ''/repo'', trace = []\<rparr>"

text \<open>
  The repository of the examples holds \<open>a.conf\<close> with the bytes \<open>X\<close>; the target
  \<open>/home/u/a.conf\<close> is missing, or holds the given bytes with the given modification
  time.
\<close>

definition demo_fs :: "(string \<times> nat) option \<Rightarrow> path \<Rightarrow> node option" where
  "demo_fs t =
     (case t of
        None \<Rightarrow> (\<lambda>p. None)(''/repo/a.conf'' \<mapsto> File ''X'' 0)
      | Some (d, m) \<Rightarrow>
          (\<lambda>p. None)(''/repo/a.conf'' \<mapsto> File ''X'' 0, ''/home/u'' \<mapsto> Dir,
                      ''/home/u/a.conf'' \<mapsto> File d m))"

definition demo_os :: "(sysop \<Rightarrow> bool) \<Rightarrow> platform" where
  "demo_os F = demo_platform F (Inr ''/repo/setup.exe'') (\<lambda>n. True) (\<lambda>n a. ([], True))"

definition demo_deploy :: "(sysop \<Rightarrow> bool) \<Rightarrow> world \<Rightarrow> world" where
  "demo_deploy F w = deployConfigFile (demo_os F) ''a.conf'' ''/home/u/a.conf'' w"

section \<open>Modification times\<close>

text \<open>
  Two states are the same but for the modification times of their files when they are
  equal once every modification time is set to zero.
\<close>

definition strip_mtime :: "node \<Rightarrow> node" where
  "strip_mtime n = (case n of File d t \<Rightarrow> File d 0 | Dir \<Rightarrow> Dir)"

definition forget_mtimes :: "world \<Rightarrow> world" where
  "forget_mtimes w = w\<lparr>nodes := (\<lambda>p. map_option strip_mtime (nodes w p))\<rparr>"

section \<open>Properties of extractVersion\<close>

lemma extractVersion_loop_started:
  "k \<le> length pre \<Longrightarrow>
   extractVersion_loop (pre @ cs) (int k) (length pre) cs = drop k pre @ takeWhile isDigitOrDot cs"
proof (induction cs arbitrary: pre)
  case Nil
  then show ?case by simp
next
  case (Cons c cs)
  have step: "extractVersion_loop (pre @ c # cs) (int k) (Suc (length pre)) cs
              = drop k pre @ c # takeWhile isDigitOrDot cs"
    using Cons.IH [of "pre @ [c]"] Cons.prems by simp
  have dd: "isDigitOrDot c \<longleftrightarrow> isDigit c \<or> c = CHR ''.''"
    by (simp add: isDigitOrDot_def)
  show ?case
    using Cons.prems step dd by (auto simp: slice_def)
qed

lemma extractVersion_loop_fresh:
  "extractVersion_loop (pre @ cs) (-1) (length pre) cs =
     (if list_ex isDigit cs then spec_version_run cs else pre @ cs)"
proof (induction cs arbitrary: pre)
  case Nil
  then show ?case by simp
next
  case (Cons c cs)
  show ?case
  proof (cases "isDigit c")
    case True
    have "extractVersion_loop (pre @ c # cs) (int (length pre)) (Suc (length pre)) cs
          = c # takeWhile isDigitOrDot cs"
      using extractVersion_loop_started [of "length pre" "pre @ [c]" cs] by simp
    moreover have "isDigitOrDot c"
      using True by (simp add: isDigitOrDot_def)
    ultimately show ?thesis
      using True by (simp add: spec_version_run_def)
  next
    case False
    with Cons.IH [of "pre @ [c]"] show ?thesis
      by (simp add: spec_version_run_def)
  qed
qed

text \<open>
  C7.  \<open>extractVersion\<close> maps \<open>"1.2.3 (abcdef)"\<close> to \<open>"1.2.3"\<close>, returns \<open>"no digits here"\<close>
  unchanged, and in general returns the input itself when it holds no digit and otherwise
  the maximal run of digits and dots that starts at the first digit.
\<close>

theorem extractVersion_first_run:
  "extractVersion ''1.2.3 (abcdef)'' = ''1.2.3''
   \<and> extractVersion ''no digits here'' = ''no digits here''
   \<and> extractVersion s = (if list_ex isDigit s then spec_version_run s else s)"
proof -
  have general: "extractVersion t = (if list_ex isDigit t then spec_version_run t else t)" for t
    using extractVersion_loop_fresh [of "[]" t] by (simp add: extractVersion_def)
  have "extractVersion ''1.2.3 (abcdef)'' = ''1.2.3''"
    by (simp add: general spec_version_run_def isDigitOrDot_def isDigit_def)
  moreover have "extractVersion ''no digits here'' = ''no digits here''"
    by (simp add: general isDigit_def)
  ultimately show ?thesis using general by simp
qed

section \<open>Properties of the file operations\<close>

text \<open>The definitions that evaluate a call on a concrete state.\<close>

lemmas deploy_eval = deployConfigFile_def deploy_existing_def deploy_copy_def copyFile_def fileHash_def
  os_Stat_def os_MkdirAll_def os_Open_def os_Create_def io_Copy_def io_read_def io_write_def
  time_stamp_def writeFail_def writeSkip_def writeSuccess_def emit_def advance_def info_of_def
  demo_platform_def demo_world_def demo_Join_def demo_Dir_def new_events_def new_failures_def
  new_created_def Deployed_def UpToDate_def BackedUp_def Let_def demo_fs_def demo_os_def
  demo_deploy_def backup_created_def is_backup_of_def content_at_def fingerprint_def
  os_IsNotExist_def err_of_def

lemmas env_eval = steady_def found_def hashable_def copyable_def makeable_def same_fingerprint_def
  sourcePath_of_def backup_name_def content_at_def fingerprint_def demo_platform_def demo_world_def
  demo_Join_def demo_Dir_def demo_fs_def demo_os_def

lemma advance_simps [simp]:
  "nodes (advance w) = nodes w" "tick (advance w) = Suc (tick w)" "created (advance w) = created w"
  "failures (advance w) = failures w" "trace (advance w) = trace w" "scriptRoot (advance w) = scriptRoot w"
  "env_PATH (advance w) = env_PATH w" "clock_reads (advance w) = clock_reads w"
  by (simp_all add: advance_def)

lemma emit_simps [simp]:
  "nodes (emit e w) = nodes w" "tick (emit e w) = tick w" "created (emit e w) = created w"
  "failures (emit e w) = failures w" "trace (emit e w) = trace w @ [e]" "scriptRoot (emit e w) = scriptRoot w"
  "env_PATH (emit e w) = env_PATH w" "clock_reads (emit e w) = clock_reads w"
  by (simp_all add: emit_def)

lemma steady_later: "steady P w F \<Longrightarrow> tick w \<le> tick w' \<Longrightarrow> steady P w' F"
  by (simp add: steady_def)

lemma steady_now: "steady P w F \<Longrightarrow> io_fault P (tick w) = F"
  by (simp add: steady_def)

lemma content_at_simps [simp]:
  "nodes w p = None \<Longrightarrow> content_at w p = None"
  "nodes w p = Some Dir \<Longrightarrow> content_at w p = None"
  "nodes w p = Some (File d t) \<Longrightarrow> content_at w p = Some d"
  by (simp_all add: content_at_def)

lemma content_at_Some: "content_at w p = Some d \<longleftrightarrow> (\<exists>t. nodes w p = Some (File d t))"
  by (auto simp: content_at_def split: option.splits node.splits)

lemma content_at_exists:
  "content_at w p \<noteq> None \<Longrightarrow> nodes w p \<noteq> None"
  "content_at w p \<noteq> None \<Longrightarrow> nodes w p \<noteq> Some Dir"
  by (auto simp: content_at_def split: option.splits)

lemma content_at_advance [simp]:
  "content_at (advance w) = content_at w" "content_at (emit e w) = content_at w"
  by (simp_all add: content_at_def fun_eq_iff)

lemma content_at_nodes: "nodes v = nodes w \<Longrightarrow> content_at v = content_at w"
  by (simp add: content_at_def fun_eq_iff)

lemma content_at_cong: "nodes w p = nodes v p \<Longrightarrow> content_at w p = content_at v p"
  by (simp add: content_at_def)

subsection \<open>os_Stat\<close>

lemma os_Stat_snd [simp]: "snd (os_Stat P p w) = advance w"
  by (simp add: os_Stat_def split: option.splits)

lemma os_Stat_steady:
  "steady P w F \<Longrightarrow> isl (fst (os_Stat P p w)) \<longleftrightarrow> \<not> found F w p"
  "steady P w F \<Longrightarrow> os_IsNotExist (err_of (fst (os_Stat P p w))) \<longleftrightarrow> \<not> F (OpStat p) \<and> nodes w p = None"
  by (auto simp: os_Stat_def found_def steady_now os_IsNotExist_def err_of_def split: option.splits)

lemma os_Stat_exists: "nodes w p \<noteq> None \<Longrightarrow> \<not> os_IsNotExist (err_of (fst (os_Stat P p w)))"
  by (auto simp: os_Stat_def os_IsNotExist_def err_of_def)

subsection \<open>os_MkdirAll\<close>

lemma os_MkdirAll_fields [simp]:
  "tick (snd (os_MkdirAll P d w)) = Suc (tick w)"
  "created (snd (os_MkdirAll P d w)) = created w"
  "trace (snd (os_MkdirAll P d w)) = trace w"
  "failures (snd (os_MkdirAll P d w)) = failures w"
  "scriptRoot (snd (os_MkdirAll P d w)) = scriptRoot w"
  "env_PATH (snd (os_MkdirAll P d w)) = env_PATH w"
  "clock_reads (snd (os_MkdirAll P d w)) = clock_reads w"
  by (simp_all add: os_MkdirAll_def split: option.splits node.splits)

lemma os_MkdirAll_nodes:
  "nodes (snd (os_MkdirAll P d w)) p =
     (if p = d \<and> fst (os_MkdirAll P d w) = None then Some Dir else nodes w p)"
  by (simp add: os_MkdirAll_def split: option.splits node.splits)

lemma os_MkdirAll_content [simp]:
  "content_at (snd (os_MkdirAll P d w)) p = content_at w p"
  by (simp add: content_at_def os_MkdirAll_def split: option.splits node.splits)

lemma os_MkdirAll_steady:
  "steady P w F \<Longrightarrow> fst (os_MkdirAll P d w) = None \<longleftrightarrow> makeable F w d"
  by (auto simp: os_MkdirAll_def makeable_def steady_now content_at_def split: option.splits node.splits)

subsection \<open>fileHash\<close>

lemma fileHash_fields [simp]:
  "nodes (snd (fileHash P p w)) = nodes w"
  "created (snd (fileHash P p w)) = created w"
  "trace (snd (fileHash P p w)) = trace w"
  "failures (snd (fileHash P p w)) = failures w"
  "scriptRoot (snd (fileHash P p w)) = scriptRoot w"
  "env_PATH (snd (fileHash P p w)) = env_PATH w"
  "clock_reads (snd (fileHash P p w)) = clock_reads w"
  by (simp_all add: fileHash_def os_Open_def io_read_def split: option.splits node.splits)

lemma fileHash_tick: "tick w \<le> tick (snd (fileHash P p w))"
  by (simp add: fileHash_def os_Open_def io_read_def split: option.splits node.splits)

lemma fileHash_content [simp]: "content_at (snd (fileHash P p w)) q = content_at w q"
  by (simp add: content_at_def)

lemma fileHash_Inr:
  "fst (fileHash P p w) = Inr h \<Longrightarrow> \<exists>d. content_at w p = Some d \<and> h = sha256_hex P d"
  by (auto simp: fileHash_def os_Open_def io_read_def split: option.splits node.splits if_splits)

lemma fileHash_steady:
  assumes "steady P w F"
  shows "fst (fileHash P p w) =
           (if hashable F w p then Inr (sha256_hex P (the (content_at w p)))
            else Inl (if F (OpOpen p) then PathError ''open'' p ErrFault
                      else if nodes w p = None then PathError ''open'' p ErrNotExist
                      else if nodes w p = Some Dir then PathError ''read'' p ErrIsDir
                      else PathError ''read'' p ErrFault))"
proof -
  have a: "io_fault P (tick w) = F" "io_fault P (Suc (tick w)) = F"
    using assms by (simp_all add: steady_def)
  show ?thesis
    by (auto simp: fileHash_def os_Open_def io_read_def hashable_def a
        split: option.splits node.splits)
qed

subsection \<open>copyFile\<close>

lemma os_Open_snd [simp]: "snd (os_Open P p w) = advance w"
  by (simp add: os_Open_def split: option.splits)

lemma os_Open_fst:
  "fst (os_Open P p w) =
     (if io_fault P (tick w) (OpOpen p) then Inl (PathError ''open'' p ErrFault)
      else if nodes w p = None then Inl (PathError ''open'' p ErrNotExist) else Inr p)"
  by (simp add: os_Open_def split: option.splits)

lemma os_Create_isl:
  "isl (fst (os_Create P p w)) \<longleftrightarrow> io_fault P (tick w) (OpCreate p) \<or> nodes w p = Some Dir"
  by (simp add: os_Create_def split: option.splits node.splits)

lemma os_Create_snd:
  "snd (os_Create P p w) =
     (if isl (fst (os_Create P p w)) then advance w
      else advance (w\<lparr>nodes := (nodes w)(p \<mapsto> File [] (fs_time P (tick w))),
                      created := created w @ [p]\<rparr>))"
  by (simp add: os_Create_def split: option.splits node.splits)

lemma os_Create_fst: "\<not> isl (fst (os_Create P p w)) \<Longrightarrow> fst (os_Create P p w) = Inr p"
  by (simp add: os_Create_def split: option.splits node.splits if_splits)

lemma io_Copy_fields [simp]:
  "trace (snd (io_Copy P out inp w)) = trace w"
  "failures (snd (io_Copy P out inp w)) = failures w"
  "scriptRoot (snd (io_Copy P out inp w)) = scriptRoot w"
  "env_PATH (snd (io_Copy P out inp w)) = env_PATH w"
  "clock_reads (snd (io_Copy P out inp w)) = clock_reads w"
  "created (snd (io_Copy P out inp w)) = created w"
  "tick (snd (io_Copy P out inp w)) = Suc (Suc (tick w))"
  by (simp_all add: io_Copy_def io_read_def io_write_def split: option.splits node.splits)

lemma io_Copy_frame: "p \<noteq> out \<Longrightarrow> nodes (snd (io_Copy P out inp w)) p = nodes w p"
  by (simp add: io_Copy_def io_read_def io_write_def split: option.splits node.splits)

lemma io_Copy_out: "content_at (snd (io_Copy P out inp w)) out \<noteq> None"
  by (simp add: io_Copy_def io_read_def io_write_def content_at_def split: option.splits node.splits)

lemma io_Copy_None:
  "fst (io_Copy P out inp w) = None \<longleftrightarrow>
     content_at w inp \<noteq> None \<and> \<not> io_fault P (tick w) (OpRead inp)
     \<and> \<not> io_fault P (Suc (tick w)) (OpWrite out)"
  by (simp add: io_Copy_def io_read_def io_write_def content_at_def split: option.splits node.splits)

lemma io_Copy_ok:
  "fst (io_Copy P out inp w) = None \<Longrightarrow> content_at (snd (io_Copy P out inp w)) out = content_at w inp"
  by (simp add: io_Copy_def io_read_def io_write_def content_at_def split: option.splits node.splits if_splits)

lemma copyFile_unfold:
  "copyFile P src dst w =
     (if isl (fst (os_Open P src w)) then (Some (projl (fst (os_Open P src w))), advance w)
      else if isl (fst (os_Create P dst (advance w)))
           then (Some (projl (fst (os_Create P dst (advance w)))), advance (advance w))
           else io_Copy P dst src (snd (os_Create P dst (advance w))))"
proof -
  have "os_Open P src w = (fst (os_Open P src w), advance w)"
    by (simp add: prod_eq_iff)
  moreover have "os_Create P dst (advance w) =
      (fst (os_Create P dst (advance w)), snd (os_Create P dst (advance w)))"
    by simp
  ultimately show ?thesis
    using os_Create_fst [of P dst "advance w"] os_Create_snd [of P dst "advance w"]
    by (auto simp: copyFile_def os_Open_fst split: prod.splits sum.splits)
qed

lemma copyFile_fields [simp]:
  "trace (snd (copyFile P src dst w)) = trace w"
  "failures (snd (copyFile P src dst w)) = failures w"
  "scriptRoot (snd (copyFile P src dst w)) = scriptRoot w"
  "env_PATH (snd (copyFile P src dst w)) = env_PATH w"
  "clock_reads (snd (copyFile P src dst w)) = clock_reads w"
  by (simp_all add: copyFile_unfold os_Create_snd)

lemma copyFile_tick: "tick w \<le> tick (snd (copyFile P src dst w))"
  by (simp add: copyFile_unfold os_Create_snd)

lemma copyFile_frame: "p \<noteq> dst \<Longrightarrow> nodes (snd (copyFile P src dst w)) p = nodes w p"
  by (simp add: copyFile_unfold os_Create_snd io_Copy_frame)

lemma copyFile_Dir: "nodes w p = Some Dir \<Longrightarrow> nodes (snd (copyFile P src dst w)) p = Some Dir"
  by (cases "p = dst") (simp_all add: copyFile_frame, simp add: copyFile_unfold os_Create_isl)

lemma copyFile_File: "content_at w p \<noteq> None \<Longrightarrow> content_at (snd (copyFile P src dst w)) p \<noteq> None"
proof (cases "p = dst")
  case False
  then show "content_at w p \<noteq> None \<Longrightarrow> ?thesis"
    using copyFile_frame [of p dst P src w] by (simp add: content_at_def)
next
  case True
  then show "content_at w p \<noteq> None \<Longrightarrow> ?thesis"
    using io_Copy_out [of P dst src "snd (os_Create P dst (advance w))"]
    by (simp add: copyFile_unfold)
qed

lemma copyFile_exists: "nodes w p \<noteq> None \<Longrightarrow> nodes (snd (copyFile P src dst w)) p \<noteq> None"
proof (cases "p = dst")
  case False
  then show "nodes w p \<noteq> None \<Longrightarrow> ?thesis"
    by (simp add: copyFile_frame)
next
  case True
  have "nodes v dst \<noteq> None" if "content_at v dst \<noteq> None" for v
    using that by (rule content_at_exists)
  from this [of "snd (io_Copy P dst src (snd (os_Create P dst (advance w))))"] True
  show "nodes w p \<noteq> None \<Longrightarrow> ?thesis"
    using io_Copy_out [of P dst src "snd (os_Create P dst (advance w))"]
    by (simp add: copyFile_unfold)
qed

lemma copyFile_ok:
  assumes "fst (copyFile P src dst w) = None"
  shows "content_at (snd (copyFile P src dst w)) dst \<noteq> None"
    and "content_at (snd (copyFile P src dst w)) dst = content_at (snd (copyFile P src dst w)) src"
    and "src \<noteq> dst \<Longrightarrow> content_at (snd (copyFile P src dst w)) dst = content_at w src"
proof -
  let ?c = "snd (os_Create P dst (advance w))"
  have o: "\<not> isl (fst (os_Open P src w))" and c: "\<not> isl (fst (os_Create P dst (advance w)))"
    and i: "fst (io_Copy P dst src ?c) = None"
    and s: "snd (copyFile P src dst w) = snd (io_Copy P dst src ?c)"
    using assms by (auto simp: copyFile_unfold split: if_splits)
  show "content_at (snd (copyFile P src dst w)) dst \<noteq> None"
    unfolding s by (rule io_Copy_out)
  have out: "content_at (snd (io_Copy P dst src ?c)) dst = content_at ?c src"
    using i by (rule io_Copy_ok)
  show "content_at (snd (copyFile P src dst w)) dst = content_at (snd (copyFile P src dst w)) src"
  proof (cases "src = dst")
    case True then show ?thesis by simp
  next
    case False
    then have "content_at (snd (io_Copy P dst src ?c)) src = content_at ?c src"
      by (simp add: content_at_def io_Copy_frame)
    with out s show ?thesis by simp
  qed
  show "content_at (snd (copyFile P src dst w)) dst = content_at w src" if "src \<noteq> dst"
    using that out s c by (simp add: os_Create_snd content_at_def)
qed

lemma copyFile_created:
  "created (snd (copyFile P src dst w)) = created w
   \<or> created (snd (copyFile P src dst w)) = created w @ [dst]"
  by (simp add: copyFile_unfold os_Create_snd)

lemma copyFile_created_iff:
  "created (snd (copyFile P src dst w)) = created w @ [dst] \<longleftrightarrow>
     \<not> isl (fst (os_Open P src w)) \<and> \<not> isl (fst (os_Create P dst (advance w)))"
  by (simp add: copyFile_unfold os_Create_snd)

text \<open>Whatever goes wrong, a copy leaves a prefix of the source's bytes in the file it created.\<close>

lemma io_Copy_prefix:
  "\<exists>d. content_at (snd (io_Copy P out inp w)) out = Some d
       \<and> prefix d (case content_at w inp of Some old \<Rightarrow> old | None \<Rightarrow> [])"
  by (simp add: io_Copy_def io_read_def io_write_def content_at_def take_is_prefix
      split: option.splits node.splits)

lemma copyFile_prefix:
  assumes "created (snd (copyFile P src dst w)) = created w @ [dst]" and "src \<noteq> dst"
  shows "\<exists>d. content_at (snd (copyFile P src dst w)) dst = Some d
       \<and> prefix d (case content_at w src of Some old \<Rightarrow> old | None \<Rightarrow> [])"
proof -
  let ?c = "snd (os_Create P dst (advance w))"
  have oc: "\<not> isl (fst (os_Open P src w))" "\<not> isl (fst (os_Create P dst (advance w)))"
    using assms(1) by (simp_all add: copyFile_created_iff)
  then have s: "snd (copyFile P src dst w) = snd (io_Copy P dst src ?c)"
    by (simp add: copyFile_unfold)
  have "content_at ?c src = content_at w src"
    using oc(2) assms(2) by (simp add: os_Create_snd content_at_def)
  then show ?thesis
    using io_Copy_prefix [of P dst src ?c] by (simp add: s)
qed

lemma copyFile_not_created:
  "io_fault P (tick w) (OpOpen src) \<or> io_fault P (Suc (tick w)) (OpCreate dst) \<or> nodes w dst = Some Dir
   \<Longrightarrow> created (snd (copyFile P src dst w)) = created w \<and> nodes (snd (copyFile P src dst w)) = nodes w"
  by (auto simp: copyFile_unfold os_Create_isl os_Open_fst)

lemma copyFile_None:
  "fst (copyFile P src dst w) = None \<longleftrightarrow>
     \<not> io_fault P (tick w) (OpOpen src) \<and> \<not> io_fault P (Suc (tick w)) (OpCreate dst)
     \<and> \<not> io_fault P (Suc (Suc (tick w))) (OpRead src)
     \<and> \<not> io_fault P (Suc (Suc (Suc (tick w)))) (OpWrite dst)
     \<and> content_at w src \<noteq> None \<and> nodes w dst \<noteq> Some Dir"
proof (cases "isl (fst (os_Open P src w))")
  case True
  then show ?thesis
    using content_at_exists(1) [of w src]
    by (auto simp: copyFile_unfold os_Open_fst split: if_splits)
next
  case o: False
  then have ex: "\<not> io_fault P (tick w) (OpOpen src)" "nodes w src \<noteq> None"
    by (auto simp: os_Open_fst split: if_splits)
  show ?thesis
  proof (cases "isl (fst (os_Create P dst (advance w)))")
    case True
    then show ?thesis
      using o by (auto simp: copyFile_unfold os_Create_isl)
  next
    case c: False
    then have cr: "\<not> io_fault P (Suc (tick w)) (OpCreate dst)" "nodes w dst \<noteq> Some Dir"
      by (simp_all add: os_Create_isl)
    have src: "content_at (snd (os_Create P dst (advance w))) src \<noteq> None \<longleftrightarrow> content_at w src \<noteq> None"
      using c cr(2) ex(2) content_at_exists(2) [of w src]
      by (cases "nodes w src") (auto simp: os_Create_snd content_at_def split: node.splits)
    have "fst (copyFile P src dst w) = fst (io_Copy P dst src (snd (os_Create P dst (advance w))))"
      using o c by (simp add: copyFile_unfold)
    then show ?thesis
      using ex cr c src by (auto simp: io_Copy_None os_Create_snd)
  qed
qed

lemma copyFile_steady:
  assumes "steady P w F"
  shows "fst (copyFile P src dst w) = None \<longleftrightarrow> copyable F w src dst"
proof -
  have a: "io_fault P (tick w) = F" "io_fault P (Suc (tick w)) = F"
    "io_fault P (Suc (Suc (tick w))) = F" "io_fault P (Suc (Suc (Suc (tick w)))) = F"
    using assms by (simp_all add: steady_def)
  show ?thesis
    unfolding copyFile_None a copyable_def by blast
qed

subsection \<open>deploy_copy\<close>

lemma writeSuccess_fields [simp]:
  "nodes (writeSuccess m w) = nodes w" "tick (writeSuccess m w) = tick w"
  "created (writeSuccess m w) = created w" "failures (writeSuccess m w) = failures w"
  "trace (writeSuccess m w) = trace w @ [EvSuccess m]" "scriptRoot (writeSuccess m w) = scriptRoot w"
  "env_PATH (writeSuccess m w) = env_PATH w" "clock_reads (writeSuccess m w) = clock_reads w"
  by (simp_all add: writeSuccess_def)

lemma writeSkip_fields [simp]:
  "nodes (writeSkip m w) = nodes w" "tick (writeSkip m w) = tick w"
  "created (writeSkip m w) = created w" "failures (writeSkip m w) = failures w"
  "trace (writeSkip m w) = trace w @ [EvSkip m]" "scriptRoot (writeSkip m w) = scriptRoot w"
  "env_PATH (writeSkip m w) = env_PATH w" "clock_reads (writeSkip m w) = clock_reads w"
  by (simp_all add: writeSkip_def)

lemma writeStep_fields [simp]:
  "nodes (writeStep m w) = nodes w" "tick (writeStep m w) = tick w"
  "created (writeStep m w) = created w" "failures (writeStep m w) = failures w"
  "trace (writeStep m w) = trace w @ [EvStep m]" "scriptRoot (writeStep m w) = scriptRoot w"
  "env_PATH (writeStep m w) = env_PATH w" "clock_reads (writeStep m w) = clock_reads w"
  by (simp_all add: writeStep_def)

lemma writeFail_fields [simp]:
  "nodes (writeFail m w) = nodes w" "tick (writeFail m w) = tick w"
  "created (writeFail m w) = created w" "failures (writeFail m w) = failures w @ [m]"
  "trace (writeFail m w) = trace w @ [EvFail m]" "scriptRoot (writeFail m w) = scriptRoot w"
  "env_PATH (writeFail m w) = env_PATH w" "clock_reads (writeFail m w) = clock_reads w"
  by (simp_all add: writeFail_def)

lemma content_at_report [simp]:
  "content_at (writeSuccess m w) = content_at w" "content_at (writeSkip m w) = content_at w"
  "content_at (writeFail m w) = content_at w"
  by (simp_all add: content_at_def fun_eq_iff)

lemma deploy_copy_unfold:
  "deploy_copy P srcRel sp target w =
     (if fst (copyFile P sp target w) = None
      then writeSuccess (''Deployed '' @ srcRel @ '' -> '' @ target) (snd (copyFile P sp target w))
      else writeFail (''Failed to deploy '' @ srcRel @ '': '' @ error_Error P (the (fst (copyFile P sp target w))))
             (snd (copyFile P sp target w)))"
  by (auto simp: deploy_copy_def split: prod.splits option.splits)

lemma deploy_existing_unfold:
  "deploy_existing P sp target w =
     (let h1 = fst (fileHash P sp w); w1 = snd (fileHash P sp w);
          h2 = fst (fileHash P target w1); w2 = snd (fileHash P target w1);
          bak = target @ ''.bak.'' @ time_Format P (time_Now P (clock_reads w));
          w3 = w2\<lparr>clock_reads := Suc (clock_reads w)\<rparr>
      in if \<not> isl h1 \<and> \<not> isl h2 \<and> h1 = h2 then (True, writeSkip (target @ '' is up to date'') w2)
         else (False, emit (BackedUp bak) (snd (copyFile P target bak w3))))"
  by (simp add: deploy_existing_def time_stamp_def BackedUp_def Let_def case_prod_beta)

lemma deployConfigFile_unfold:
  "deployConfigFile P srcRel target w =
     (let sp = filepath_Join P [scriptRoot w, srcRel]; dir = filepath_Dir P target;
          w1 = advance w; mk = os_MkdirAll P dir w1; w3 = advance (snd mk);
          ex = deploy_existing P sp target w3
      in if os_IsNotExist (err_of (fst (os_Stat P sp w)))
         then writeFail (''Source config not found: '' @ srcRel) w1
         else if fst mk \<noteq> None then writeFail (''Failed to create directory: '' @ dir) (snd mk)
         else if isl (fst (os_Stat P target (snd mk))) then deploy_copy P srcRel sp target w3
         else if fst ex then snd ex else deploy_copy P srcRel sp target (snd ex))"
  by (auto simp: deployConfigFile_def Let_def case_prod_beta split: option.splits sum.splits bool.splits)

subsection \<open>What a call appends\<close>

lemma new_events_append: "trace w' = trace w @ es \<Longrightarrow> new_events w w' = es"
  by (simp add: new_events_def)

lemma new_failures_append: "failures w' = failures w @ ms \<Longrightarrow> new_failures w w' = ms"
  by (simp add: new_failures_def)

lemma new_created_append: "created w' = created w @ ps \<Longrightarrow> new_created w w' = ps"
  by (simp add: new_created_def)

lemma backup_neq_target [simp]: "target @ ''.bak.'' @ ts \<noteq> target" "target \<noteq> target @ ''.bak.'' @ ts"
  by simp_all

lemma not_backup_of_self [simp]: "\<not> is_backup_of target target"
  by (simp add: is_backup_of_def)

lemma is_backup_of_backup [simp]: "is_backup_of target (target @ ''.bak.'' @ ts)"
  by (simp add: is_backup_of_def)

lemma deploy_copy_fields [simp]:
  "nodes (deploy_copy P srcRel sp target w) = nodes (snd (copyFile P sp target w))"
  "created (deploy_copy P srcRel sp target w) = created (snd (copyFile P sp target w))"
  "scriptRoot (deploy_copy P srcRel sp target w) = scriptRoot w"
  "clock_reads (deploy_copy P srcRel sp target w) = clock_reads w"
  "env_PATH (deploy_copy P srcRel sp target w) = env_PATH w"
  "content_at (deploy_copy P srcRel sp target w) = content_at (snd (copyFile P sp target w))"
  by (simp_all add: deploy_copy_unfold)

lemma deploy_copy_trace:
  "\<exists>m. trace (deploy_copy P srcRel sp target w) =
          trace w @ [if fst (copyFile P sp target w) = None then Deployed srcRel target else EvFail m]
     \<and> failures (deploy_copy P srcRel sp target w) =
          failures w @ (if fst (copyFile P sp target w) = None then [] else [m])"
  by (simp add: deploy_copy_unfold Deployed_def)

lemma deploy_copy_trace_err:
  "trace (deploy_copy P srcRel sp target w) =
     trace w @ [if fst (copyFile P sp target w) = None then Deployed srcRel target
                else EvFail (''Failed to deploy '' @ srcRel @ '': ''
                             @ error_Error P (the (fst (copyFile P sp target w))))]"
  by (simp add: deploy_copy_unfold Deployed_def)

text \<open>The states of a call at its program points, for the proofs.\<close>

lemma deployConfigFile_run:
  fixes P srcRel target w
  assumes sp: "sp = filepath_Join P [scriptRoot w, srcRel]" and dir: "dir = filepath_Dir P target"
    and w2: "w2 = snd (os_MkdirAll P dir (advance w))"
    and w4: "w4 = snd (fileHash P sp (advance w2))"
    and w5: "w5 = snd (fileHash P target w4)"
    and bak: "bak = backup_name P target w"
    and w6: "w6 = emit (BackedUp bak) (snd (copyFile P target bak (w5\<lparr>clock_reads := Suc (clock_reads w)\<rparr>)))"
    and up: "up \<longleftrightarrow> \<not> isl (fst (fileHash P sp (advance w2))) \<and> \<not> isl (fst (fileHash P target w4))
                \<and> fst (fileHash P sp (advance w2)) = fst (fileHash P target w4)"
  shows "deployConfigFile P srcRel target w =
     (if os_IsNotExist (err_of (fst (os_Stat P sp w)))
      then writeFail (''Source config not found: '' @ srcRel) (advance w)
      else if fst (os_MkdirAll P dir (advance w)) \<noteq> None
      then writeFail (''Failed to create directory: '' @ dir) w2
      else if isl (fst (os_Stat P target w2)) then deploy_copy P srcRel sp target (advance w2)
      else if up then writeSkip (target @ '' is up to date'') w5
      else deploy_copy P srcRel sp target w6)"
  unfolding deployConfigFile_unfold deploy_existing_unfold Let_def assms backup_name_def
  by simp

lemma fingerprint_cong: "content_at w p = content_at v q \<Longrightarrow> fingerprint P w p = fingerprint P v q"
  by (simp add: fingerprint_def)

lemma Deployed_neq [simp]:
  "Deployed a b \<noteq> EvFail m" "Deployed a b \<noteq> UpToDate t" "Deployed a b \<noteq> BackedUp c"
  "EvFail m \<noteq> Deployed a b" "UpToDate t \<noteq> Deployed a b" "BackedUp c \<noteq> Deployed a b"
  "UpToDate t \<noteq> EvFail m" "UpToDate t \<noteq> BackedUp c" "BackedUp c \<noteq> EvFail m"
  "EvFail m \<noteq> UpToDate t" "BackedUp c \<noteq> UpToDate t" "EvFail m \<noteq> BackedUp c"
  by (simp_all add: Deployed_def UpToDate_def BackedUp_def)

text \<open>The state after a call that reports \<open>Deployed\<close>.\<close>

lemma deployed_state:
  assumes dep: "Deployed srcRel target \<in> set (new_events w (deployConfigFile P srcRel target w))"
  shows "new_failures w (deployConfigFile P srcRel target w) = []
    \<and> content_at (deployConfigFile P srcRel target w) target \<noteq> None
    \<and> content_at (deployConfigFile P srcRel target w) target
        = content_at (deployConfigFile P srcRel target w) (sourcePath_of P w srcRel)
    \<and> (sourcePath_of P w srcRel \<noteq> target \<and> sourcePath_of P w srcRel \<noteq> backup_name P target w
        \<longrightarrow> content_at (deployConfigFile P srcRel target w) target
            = content_at w (sourcePath_of P w srcRel))
    \<and> nodes (deployConfigFile P srcRel target w) (filepath_Dir P target) = Some Dir
    \<and> scriptRoot (deployConfigFile P srcRel target w) = scriptRoot w"
proof -
  define sp where "sp = filepath_Join P [scriptRoot w, srcRel]"
  define dir where "dir = filepath_Dir P target"
  define w2 where "w2 = snd (os_MkdirAll P dir (advance w))"
  define w4 where "w4 = snd (fileHash P sp (advance w2))"
  define w5 where "w5 = snd (fileHash P target w4)"
  define bak where "bak = backup_name P target w"
  define w5' where "w5' = w5\<lparr>clock_reads := Suc (clock_reads w)\<rparr>"
  define w6 where "w6 = emit (BackedUp bak) (snd (copyFile P target bak w5'))"
  define up where "up \<longleftrightarrow> \<not> isl (fst (fileHash P sp (advance w2))) \<and> \<not> isl (fst (fileHash P target w4))
                \<and> fst (fileHash P sp (advance w2)) = fst (fileHash P target w4)"
  define w' where "w' = deployConfigFile P srcRel target w"
  note run = deployConfigFile_run [OF sp_def dir_def w2_def w4_def w5_def bak_def
      w6_def [unfolded w5'_def] up_def, folded w'_def]
  have spo: "sourcePath_of P w srcRel = sp"
    by (simp add: sourcePath_of_def sp_def)
  have tr2: "trace w2 = trace w" and fl2: "failures w2 = failures w"
    by (simp_all add: w2_def)
  have c2: "content_at w2 = content_at w"
    by (simp add: w2_def fun_eq_iff)
  have tr6: "trace w6 = trace w @ [BackedUp bak]" and fl6: "failures w6 = failures w"
    by (simp_all add: w6_def w5'_def w5_def w4_def tr2 fl2)
  have "nodes w5' = nodes w2"
    by (simp add: w5'_def w5_def w4_def)
  then have c5: "content_at w5' = content_at w"
    using c2 content_at_nodes [of w5' w2] by simp
  have c6: "content_at w6 p = content_at w p" if "p \<noteq> bak" for p
  proof -
    have "content_at w6 p = content_at w5' p"
      using copyFile_frame [OF that, of P target w5'] by (simp add: w6_def content_at_def)
    then show ?thesis by (simp add: c5)
  qed
  \<comment> \<open>the call ends in the copy, from a state \<open>v\<close> that differs from \<open>w\<close> at the backup only\<close>
  have d2: "nodes w2 dir = Some Dir" if "fst (os_MkdirAll P dir (advance w)) = None"
    using that by (simp add: w2_def os_MkdirAll_nodes)
  have d6: "nodes w6 dir = Some Dir" if "fst (os_MkdirAll P dir (advance w)) = None"
  proof -
    have "nodes w5' dir = Some Dir"
      using d2 [OF that] by (simp add: w5'_def w5_def w4_def)
    then show ?thesis
      by (simp add: w6_def copyFile_Dir)
  qed
  have sr: "scriptRoot (advance w2) = scriptRoot w" "scriptRoot w6 = scriptRoot w"
    by (simp_all add: w6_def w5'_def w5_def w4_def w2_def)
  have "\<exists>v. w' = deploy_copy P srcRel sp target v \<and> failures v = failures w
           \<and> (trace v = trace w \<or> trace v = trace w @ [BackedUp bak])
           \<and> (\<forall>p. p \<noteq> bak \<longrightarrow> content_at v p = content_at w p)
           \<and> nodes v dir = Some Dir \<and> scriptRoot v = scriptRoot w"
  proof -
    consider (a) "w' = writeFail (''Source config not found: '' @ srcRel) (advance w)"
      | (b) "w' = writeFail (''Failed to create directory: '' @ dir) w2"
      | (c) "fst (os_MkdirAll P dir (advance w)) = None"
            "w' = deploy_copy P srcRel sp target (advance w2)"
      | (d) "w' = writeSkip (target @ '' is up to date'') w5"
      | (e) "fst (os_MkdirAll P dir (advance w)) = None"
            "w' = deploy_copy P srcRel sp target w6"
      using run by (auto split: if_splits)
    then show ?thesis
    proof cases
      case a
      then have "new_events w w' = [EvFail (''Source config not found: '' @ srcRel)]"
        by (simp add: new_events_append)
      with dep show ?thesis by (simp add: w'_def)
    next
      case b
      then have "new_events w w' = [EvFail (''Failed to create directory: '' @ dir)]"
        by (simp add: new_events_append tr2)
      with dep show ?thesis by (simp add: w'_def)
    next
      case c
      then show ?thesis
        using tr2 fl2 c2 d2 sr by (intro exI [of _ "advance w2"]) simp
    next
      case d
      then have "new_events w w' = [UpToDate target]"
        by (simp add: new_events_append w5_def w4_def tr2 UpToDate_def)
      with dep show ?thesis by (simp add: w'_def)
    next
      case e
      then show ?thesis
        using tr6 fl6 c6 d6 sr by (intro exI [of _ w6]) simp
    qed
  qed
  then obtain v where v: "w' = deploy_copy P srcRel sp target v" "failures v = failures w"
    "trace v = trace w \<or> trace v = trace w @ [BackedUp bak]"
    "\<And>p. p \<noteq> bak \<Longrightarrow> content_at v p = content_at w p"
    "nodes v dir = Some Dir" "scriptRoot v = scriptRoot w"
    by blast
  obtain m where m: "trace w' = trace v @ [if fst (copyFile P sp target v) = None
                       then Deployed srcRel target else EvFail m]"
      "failures w' = failures v @ (if fst (copyFile P sp target v) = None then [] else [m])"
    using deploy_copy_trace [of P srcRel sp target v] v(1) by auto
  have ok: "fst (copyFile P sp target v) = None"
  proof (rule ccontr)
    assume "fst (copyFile P sp target v) \<noteq> None"
    then have "new_events w w' = [EvFail m] \<or> new_events w w' = [BackedUp bak, EvFail m]"
      using m(1) v(3) by (auto simp: new_events_append)
    with dep show False by (auto simp: w'_def)
  qed
  have cw': "content_at w' = content_at (snd (copyFile P sp target v))"
    by (simp add: v(1))
  have 1: "new_failures w w' = []"
    using m(2) ok v(2) by (simp add: new_failures_append)
  have 2: "content_at w' target \<noteq> None"
    using copyFile_ok(1) [OF ok] by (simp add: cw')
  have 3: "content_at w' target = content_at w' sp"
    using copyFile_ok(2) [OF ok] by (simp add: cw')
  have 4: "content_at w' target = content_at w sp" if "sp \<noteq> target" "sp \<noteq> bak"
    using copyFile_ok(3) [OF ok that(1)] v(4) [OF that(2)] by (simp add: cw')
  have 5: "nodes w' dir = Some Dir"
    using v(5) by (simp add: v(1) copyFile_Dir)
  have 6: "scriptRoot w' = scriptRoot w"
    using v(6) by (simp add: v(1))
  show ?thesis
    using 1 2 3 4 5 6 by (simp add: w'_def [symmetric] spo bak_def dir_def)
qed

text \<open>
  C2.  A call of \<open>deployConfigFile\<close> that reports \<open>Deployed\<close> appends nothing to the failure
  log, and afterwards the target is a regular file whose SHA-256 fingerprint equals that
  of the source file.  The source is the file as it is after the call; it is the file as
  it was before the call as well, unless the source path is the target or the backup name.
\<close>

theorem deploy_fingerprint_equal:
  assumes "Deployed srcRel target \<in> set (new_events w (deployConfigFile P srcRel target w))"
  shows "new_failures w (deployConfigFile P srcRel target w) = []
    \<and> fingerprint P (deployConfigFile P srcRel target w) target \<noteq> None
    \<and> fingerprint P (deployConfigFile P srcRel target w) target
        = fingerprint P (deployConfigFile P srcRel target w) (sourcePath_of P w srcRel)
    \<and> (sourcePath_of P w srcRel \<noteq> target \<and> sourcePath_of P w srcRel \<noteq> backup_name P target w
        \<longrightarrow> fingerprint P (deployConfigFile P srcRel target w) target
            = fingerprint P w (sourcePath_of P w srcRel))"
  using deployed_state [OF assms] by (auto simp: fingerprint_def)

text \<open>
  A first deployment: the target is missing, and afterwards it has the fingerprint of the
  source.
\<close>

theorem deploy_fingerprint_equal_witness:
  "Deployed ''a.conf'' ''/home/u/a.conf''
     \<in> set (new_events (demo_world (demo_fs None)) (demo_deploy (\<lambda>op. False) (demo_world (demo_fs None))))
   \<and> fingerprint (demo_os (\<lambda>op. False)) (demo_deploy (\<lambda>op. False) (demo_world (demo_fs None))) ''/home/u/a.conf''
       = fingerprint (demo_os (\<lambda>op. False)) (demo_world (demo_fs None)) ''/repo/a.conf''"
proof -
  have h: "Deployed ''a.conf'' ''/home/u/a.conf''
     \<in> set (new_events (demo_world (demo_fs None))
          (deployConfigFile (demo_os (\<lambda>op. False)) ''a.conf'' ''/home/u/a.conf'' (demo_world (demo_fs None))))"
    by (simp add: deploy_eval)
  have s: "sourcePath_of (demo_os (\<lambda>op. False)) (demo_world (demo_fs None)) ''a.conf'' = ''/repo/a.conf''"
    "backup_name (demo_os (\<lambda>op. False)) ''/home/u/a.conf'' (demo_world (demo_fs None))
      = ''/home/u/a.conf.bak.20240101-120000''"
    by (simp_all add: env_eval)
  show ?thesis
    using deploy_fingerprint_equal [OF h] h by (auto simp: s demo_deploy_def)
qed

section \<open>Properties of the run\<close>

lemma steps_of_simps [simp]:
  "steps_of [] = []" "steps_of (es @ fs) = steps_of es @ steps_of fs"
  "steps_of (EvStep m # es) = m # steps_of es" "steps_of (EvFail m # es) = steps_of es"
  "steps_of (EvSuccess m # es) = steps_of es" "steps_of (EvSkip m # es) = steps_of es"
  "steps_of (EvInfo m # es) = steps_of es" "steps_of (EvExec n a # es) = steps_of es"
  "steps_of (EvSummary fs' # es) = steps_of es"
  by (simp_all add: steps_of_def)

lemma fails_of_simps [simp]:
  "fails_of [] = []" "fails_of (es @ fs) = fails_of es @ fails_of fs"
  "fails_of (EvStep m # es) = fails_of es" "fails_of (EvFail m # es) = m # fails_of es"
  "fails_of (EvSuccess m # es) = fails_of es" "fails_of (EvSkip m # es) = fails_of es"
  "fails_of (EvInfo m # es) = fails_of es" "fails_of (EvExec n a # es) = fails_of es"
  "fails_of (EvSummary fs' # es) = fails_of es"
  by (simp_all add: fails_of_def)

lemma grown_refl: "grown w [] w"
  by (simp add: grown_def)

lemma grown_same: "trace w' = trace w \<Longrightarrow> failures w' = failures w \<Longrightarrow> grown w0 rs w \<Longrightarrow> grown w0 rs w'"
  by (simp add: grown_def)

lemma grown_emit:
  "grown w0 rs w \<Longrightarrow> grown w0 rs (emit (EvInfo m) w)"
  "grown w0 rs w \<Longrightarrow> grown w0 rs (emit (EvExec n a) w)"
  "grown w0 rs w \<Longrightarrow> grown w0 rs (emit (EvSummary fs) w)"
  "grown w0 rs w \<Longrightarrow> grown w0 rs (writeSuccess m w)"
  "grown w0 rs w \<Longrightarrow> grown w0 rs (writeSkip m w)"
  "grown w0 rs w \<Longrightarrow> grown w0 rs (writeFail m w)"
  "grown w0 rs w \<Longrightarrow> grown w0 rs (advance w)"
  by (auto simp: grown_def)

lemma grown_writeStep: "grown w0 rs w \<Longrightarrow> grown w0 (m # rs) (writeStep m w)"
  by (auto simp: grown_def)

lemma grown_run_external: "grown w0 rs w \<Longrightarrow> grown w0 rs (snd (run_external P n a w))"
  by (auto simp: run_external_def case_prod_beta intro!: grown_emit elim: grown_same [rotated 2])

lemma grown_runCmd:
  "grown w0 rs w \<Longrightarrow> grown w0 rs (snd (runCmd P n a w))"
  "grown w0 rs w \<Longrightarrow> grown w0 rs (snd (runCmdPassthrough P n a w))"
  by (simp_all add: runCmd_def runCmdPassthrough_def case_prod_beta grown_run_external)

lemma grown_commandExists: "grown w0 rs w \<Longrightarrow> grown w0 rs (snd (commandExists P n w))"
  by (simp add: commandExists_def grown_emit)

lemma grown_refreshPath: "grown w0 rs w \<Longrightarrow> grown w0 rs (refreshPath P w)"
  by (auto simp: refreshPath_def case_prod_beta split: option.splits
      intro: grown_same [OF _ _ grown_run_external])

lemmas grown_rules = grown_emit grown_run_external grown_runCmd grown_commandExists grown_refreshPath

lemma grown_installWingetPackage:
  "grown w0 rs w \<Longrightarrow> grown w0 rs (installWingetPackage P i d w)"
  by (auto simp: installWingetPackage_def case_prod_beta split: option.splits intro!: grown_rules)

lemma grown_scoop_add_bucket: "grown w0 rs w \<Longrightarrow> grown w0 rs (scoop_add_bucket P b w)"
  by (auto simp: scoop_add_bucket_def case_prod_beta intro!: grown_rules)

lemma grown_installScoopPackage:
  "grown w0 rs w \<Longrightarrow> grown w0 rs (installScoopPackage P i b w)"
  by (auto simp: installScoopPackage_def case_prod_beta split: option.splits
      intro!: grown_rules grown_scoop_add_bucket)

lemma grown_setGitConfigIfMissing:
  "grown w0 rs w \<Longrightarrow> grown w0 rs (setGitConfigIfMissing P k v w)"
  by (auto simp: setGitConfigIfMissing_def case_prod_beta intro!: grown_rules)

lemma grown_promptInput: "grown w0 rs w \<Longrightarrow> grown w0 rs (snd (promptInput P m w))"
  by (auto simp: promptInput_def intro!: grown_rules)

lemma grown_step_scoop: "grown w0 rs w \<Longrightarrow> grown w0 rs (step_scoop P w)"
  by (auto simp: step_scoop_def case_prod_beta split: option.splits bool.splits intro!: grown_rules)

lemma grown_git_identity: "grown w0 rs w \<Longrightarrow> grown w0 rs (git_identity P w)"
  by (auto simp: git_identity_def git_identity_name_def git_identity_email_def case_prod_beta
      split: option.splits bool.splits intro!: grown_rules grown_promptInput)

lemma grown_step_node: "grown w0 rs w \<Longrightarrow> grown w0 rs (step_node P w)"
  by (auto simp: step_node_def case_prod_beta split: option.splits bool.splits intro!: grown_rules)

lemma grown_os_Stat: "grown w0 rs w \<Longrightarrow> grown w0 rs (snd (os_Stat P p w))"
  by (simp add: grown_rules)

lemma grown_os_Rename:
  "grown w0 rs w \<Longrightarrow> grown w0 rs (snd (os_Rename P a b w))"
  "grown w0 rs w \<Longrightarrow> grown w0 rs (snd (os_RemoveAll P a w))"
  by (auto simp: os_Rename_def os_RemoveAll_def intro!: grown_rules elim: grown_same [rotated 2])

lemma grown_time_stamp: "grown w0 rs w \<Longrightarrow> grown w0 rs (snd (time_stamp P w))"
  by (auto simp: time_stamp_def elim: grown_same [rotated 2])

lemma grown_lazyvim_backup: "grown w0 rs w \<Longrightarrow> grown w0 rs (lazyvim_backup P d w)"
  by (auto simp: lazyvim_backup_def case_prod_beta Let_def split: sum.splits
      intro!: grown_rules grown_os_Rename grown_time_stamp)

lemma grown_step_lazyvim: "grown w0 rs w \<Longrightarrow> grown w0 rs (step_lazyvim P w)"
  by (auto simp: step_lazyvim_def case_prod_beta Let_def split: sum.splits option.splits bool.splits
      intro!: grown_rules grown_os_Rename grown_lazyvim_backup)

lemma grown_git_defaults: "grown w0 rs w \<Longrightarrow> grown w0 rs (git_defaults P w)"
  by (auto simp: git_defaults_def case_prod_beta Let_def split: bool.splits
      intro!: grown_rules grown_setGitConfigIfMissing)

lemma grown_verify_tool: "grown w0 rs w \<Longrightarrow> grown w0 rs (verify_tool P t w)"
  by (auto simp: verify_tool_def case_prod_beta Let_def split: bool.splits intro!: grown_rules)

lemma grown_foldl_verify:
  "grown w0 rs w \<Longrightarrow> grown w0 rs (foldl (\<lambda>v t. verify_tool P t v) w ts)"
  by (induction ts arbitrary: w) (simp_all add: grown_verify_tool)

lemma grown_verify_installations: "grown w0 rs w \<Longrightarrow> grown w0 rs (verify_installations P w)"
  by (simp add: verify_installations_def grown_foldl_verify grown_rules)

lemma grown_summary: "grown w0 rs w \<Longrightarrow> grown w0 rs (summary w)"
  by (simp add: summary_def grown_rules)

lemma grown_deploy_copy: "grown w0 rs w \<Longrightarrow> grown w0 rs (deploy_copy P s sp t w)"
  unfolding deploy_copy_unfold
  by (auto intro!: grown_rules elim: grown_same [rotated 2])

lemma grown_deploy_existing: "grown w0 rs w \<Longrightarrow> grown w0 rs (snd (deploy_existing P sp t w))"
  unfolding deploy_existing_unfold Let_def BackedUp_def
  by (auto intro!: grown_rules elim: grown_same [rotated 2])

lemma grown_deployConfigFile: "grown w0 rs w \<Longrightarrow> grown w0 rs (deployConfigFile P s t w)"
  unfolding deployConfigFile_unfold Let_def
  by (auto intro!: grown_rules grown_deploy_copy grown_deploy_existing elim: grown_same [rotated 2])

lemma grown_deploy_configs: "grown w0 rs w \<Longrightarrow> grown w0 rs (deploy_configs P w)"
  by (simp add: deploy_configs_def Let_def grown_deployConfigFile)

lemmas grown_blocks = grown_rules grown_installWingetPackage grown_installScoopPackage
  grown_step_scoop grown_git_identity grown_step_node grown_step_lazyvim grown_deploy_configs
  grown_git_defaults grown_verify_installations grown_summary

lemma grown_provision:
  "grown w0 rs w \<Longrightarrow> grown w0 (rev provision_steps @ rs) (provision P w)"
  by (simp add: provision_def Let_def provision_steps_def) (intro grown_blocks grown_writeStep)

lemma provision_summary:
  "\<exists>v. provision P w = summary v"
  unfolding provision_def Let_def by (rule exI) (rule refl)

lemma exit_code_of_main:
  "fst (main P w) = (if preflight_ok P w then 0 else 1)"
  by (auto simp: main_def preflight_ok_def commandExists_def http_probe_def banner_def
      enableVirtualTerminal_def split: sum.splits bool.splits option.splits prod.splits if_splits)


section \<open>The claims about the run\<close>

lemma grown_new:
  assumes "grown w rs w'"
  shows "steps_of (new_events w w') = rev rs" and "new_failures w w' = fails_of (new_events w w')"
  using assms by (auto simp: grown_def new_events_def new_failures_def rev_swap)

text \<open>
  C3, as amended.  \<open>main\<close> exits with code \<open>0\<close> exactly when the three preflight checks pass,
  whatever fails after them, and with code \<open>1\<close> otherwise: when the path of the executable
  cannot be determined, when \<open>winget\<close> is not on the search path, or when the probe of
  \<open>github.com\<close> fails.
\<close>

theorem main_exit_codes:
  "fst (main P w) = (if preflight_ok P w then 0 else 1)"
  by (rule exit_code_of_main)

text \<open>A run whose preflight checks pass.\<close>

theorem main_exit_codes_witness:
  "fst (main (demo_os (\<lambda>op. False)) (demo_world (demo_fs None))) = 0"
  using main_exit_codes [of "demo_os (\<lambda>op. False)" "demo_world (demo_fs None)"]
  by (simp add: preflight_ok_def demo_os_def demo_platform_def demo_world_def)

text \<open>
  C3 as stated fails: here \<open>winget\<close> is on the search path and \<open>github.com\<close> answers, and
  \<open>main\<close> exits with code \<open>1\<close> all the same, because \<^verbatim>\<open>os.Executable\<close> returned an error.
\<close>

theorem main_exit_codes_counterexample:
  "fst (main (demo_platform (\<lambda>op. False) (Inl ErrFault) (\<lambda>n. True) (\<lambda>n a. ([], True))) (demo_world (\<lambda>p. None))) = 1
   \<and> exec_LookPath (demo_platform (\<lambda>op. False) (Inl ErrFault) (\<lambda>n. True) (\<lambda>n a. ([], True)))
        (tick (demo_world (\<lambda>p. None))) (env_PATH (demo_world (\<lambda>p. None))) ''winget''
   \<and> http_Get (demo_platform (\<lambda>op. False) (Inl ErrFault) (\<lambda>n. True) (\<lambda>n a. ([], True)))
        (Suc (tick (demo_world (\<lambda>p. None)))) ''https://www.github.com''"
  by (simp add: main_def demo_platform_def demo_world_def)


text \<open>
  C6.  When the output of the listing command, as \<open>runCmd\<close> returns it, contains the package
  identifier, \<open>installWingetPackage\<close> and \<open>installScoopPackage\<close> run the listing command and
  nothing else, report \<open>Skipped\<close>, and log no failure.
\<close>

theorem listing_match_skips:
  "(strings_Contains (fst (fst (runCmd P ''winget'' (winget_list_args packageID) w))) packageID
      \<longrightarrow> new_events w (installWingetPackage P packageID displayName w)
            = [EvExec ''winget'' (winget_list_args packageID), EvSkip (displayName @ '' already installed'')]
          \<and> new_failures w (installWingetPackage P packageID displayName w) = [])
   \<and> (strings_Contains (fst (fst (runCmd P ''scoop'' [''list''] w))) pkg
      \<longrightarrow> new_events w (installScoopPackage P pkg bucket w)
            = [EvExec ''scoop'' [''list''], EvSkip (pkg @ '' already installed (scoop)'')]
          \<and> new_failures w (installScoopPackage P pkg bucket w) = [])"
  by (simp add: installWingetPackage_def installScoopPackage_def runCmd_def run_external_def
      case_prod_beta new_events_def new_failures_def)

text \<open>Listings that name \<open>Git.Git\<close> and \<open>JetBrainsMono-NF\<close>.\<close>

theorem listing_match_skips_witness:
  "(strings_Contains (fst (fst (runCmd (demo_platform (\<lambda>op. False) (Inr ''/repo/setup.exe'') (\<lambda>n. True)
        (\<lambda>n a. (''Git Git.Git 2.44.0 JetBrainsMono-NF 3.1.1'', True))) ''winget'' (winget_list_args ''Git.Git'')
        (demo_world (\<lambda>p. None))))) ''Git.Git''
    \<and> new_events (demo_world (\<lambda>p. None))
          (installWingetPackage (demo_platform (\<lambda>op. False) (Inr ''/repo/setup.exe'') (\<lambda>n. True)
             (\<lambda>n a. (''Git Git.Git 2.44.0 JetBrainsMono-NF 3.1.1'', True))) ''Git.Git'' ''Git'' (demo_world (\<lambda>p. None)))
        = [EvExec ''winget'' (winget_list_args ''Git.Git''), EvSkip ''Git already installed''])
   \<and> (strings_Contains (fst (fst (runCmd (demo_platform (\<lambda>op. False) (Inr ''/repo/setup.exe'') (\<lambda>n. True)
        (\<lambda>n a. (''Git Git.Git 2.44.0 JetBrainsMono-NF 3.1.1'', True))) ''scoop'' [''list'']
        (demo_world (\<lambda>p. None))))) ''JetBrainsMono-NF''
    \<and> new_events (demo_world (\<lambda>p. None))
          (installScoopPackage (demo_platform (\<lambda>op. False) (Inr ''/repo/setup.exe'') (\<lambda>n. True)
             (\<lambda>n a. (''Git Git.Git 2.44.0 JetBrainsMono-NF 3.1.1'', True))) ''JetBrainsMono-NF'' ''nerd-fonts'' (demo_world (\<lambda>p. None)))
        = [EvExec ''scoop'' [''list''], EvSkip ''JetBrainsMono-NF already installed (scoop)''])"
proof -
  let ?P = "demo_platform (\<lambda>op. False) (Inr ''/repo/setup.exe'') (\<lambda>n. True)
        (\<lambda>n a. (''Git Git.Git 2.44.0 JetBrainsMono-NF 3.1.1'', True))"
  let ?w = "demo_world (\<lambda>p. None)"
  have out: "fst (fst (runCmd ?P c a ?w)) = ''Git Git.Git 2.44.0 JetBrainsMono-NF 3.1.1''" for c a
    by (simp add: runCmd_def run_external_def demo_platform_def demo_world_def demo_TrimSpace_def
        demo_isSpace_def)
  have h1: "strings_Contains (fst (fst (runCmd ?P ''winget'' (winget_list_args ''Git.Git'') ?w))) ''Git.Git''"
    unfolding out strings_Contains_def by (simp add: sublist_code(3))
  have h2: "strings_Contains (fst (fst (runCmd ?P ''scoop'' [''list''] ?w))) ''JetBrainsMono-NF''"
    unfolding out strings_Contains_def by (simp add: sublist_code(3))
  show ?thesis
    using listing_match_skips [of ?P "''Git.Git''" ?w "''Git''" "''JetBrainsMono-NF''" "''nerd-fonts''"] h1 h2
    by simp
qed

section \<open>Properties of a call of deployConfigFile\<close>

lemma os_MkdirAll_Dir: "nodes w p = Some Dir \<Longrightarrow> nodes (snd (os_MkdirAll P d w)) p = Some Dir"
  by (simp add: os_MkdirAll_nodes)

lemma os_MkdirAll_keeps: "nodes w p \<noteq> None \<Longrightarrow> nodes (snd (os_MkdirAll P d w)) p = nodes w p"
  by (auto simp: os_MkdirAll_def split: option.splits node.splits)

lemma is_backup_of_backup_name: "is_backup_of target (backup_name P target w)"
  unfolding is_backup_of_def backup_name_def prefix_def
  by (rule exI [of _ "time_Format P (time_Now P (clock_reads w))"]) simp

lemma copyFile_created_ok:
  assumes "fst (copyFile P src dst w) = None"
  shows "created (snd (copyFile P src dst w)) = created w @ [dst]"
proof -
  have "\<not> isl (fst (os_Open P src w))" "\<not> isl (fst (os_Create P dst (advance w)))"
    using assms by (auto simp: copyFile_unfold split: if_splits)
  then show ?thesis
    by (simp add: copyFile_unfold os_Create_snd)
qed

lemma deploy_steady:
  assumes sp_def: "sp = sourcePath_of P w srcRel" and dir_def: "dir = filepath_Dir P target"
    and bak_def: "bak = backup_name P target w" and w'_def: "w' = deployConfigFile P srcRel target w"
    and st: "steady P w F" and src: "nodes w sp \<noteq> None"
    and dt: "dir \<noteq> target \<or> nodes w target \<noteq> None"
  shows "\<exists>m. new_events w w' =
           (if \<not> makeable F w dir then [EvFail (''Failed to create directory: '' @ dir)]
            else if found F w target \<and> same_fingerprint P F w sp target then [UpToDate target]
            else (if found F w target then [BackedUp bak] else [])
                 @ [if copyable F w sp target then Deployed srcRel target else EvFail m])"
    and "makeable F w dir \<Longrightarrow> found F w target \<Longrightarrow> same_fingerprint P F w sp target \<Longrightarrow>
           created w' = created w \<and> (\<forall>p. p \<noteq> dir \<longrightarrow> nodes w' p = nodes w p)
           \<and> (nodes w dir \<noteq> None \<longrightarrow> nodes w' = nodes w)"
    and "F (OpOpen target) \<or> F (OpCreate bak) \<or> nodes w bak = Some Dir \<Longrightarrow>
           \<not> backup_created target w w' \<and> (bak \<noteq> target \<and> bak \<noteq> dir \<longrightarrow> nodes w' bak = nodes w bak)"
    and "makeable F w dir \<Longrightarrow> found F w target \<Longrightarrow> \<not> same_fingerprint P F w sp target \<Longrightarrow>
           copyable F w target bak \<Longrightarrow> bak \<noteq> dir \<Longrightarrow>
           backup_created target w w' \<and> content_at w' bak = content_at w target"
    and "makeable F w dir \<Longrightarrow> found F w target \<Longrightarrow> \<not> same_fingerprint P F w sp target \<Longrightarrow>
           (bak \<noteq> dir \<longrightarrow>
              (backup_created target w w' \<longleftrightarrow>
                 \<not> F (OpOpen target) \<and> \<not> F (OpCreate bak) \<and> nodes w bak \<noteq> Some Dir))
           \<and> (backup_created target w w' \<longrightarrow>
                (\<exists>d. content_at w' bak = Some d
                   \<and> prefix d (case content_at w target of Some old \<Rightarrow> old | None \<Rightarrow> [])))"
    and "\<exists>err. new_events w w' =
           (if \<not> makeable F w dir then [EvFail (''Failed to create directory: '' @ dir)]
            else if found F w target \<and> same_fingerprint P F w sp target then [UpToDate target]
            else (if found F w target then [BackedUp bak] else [])
                 @ [if copyable F w sp target then Deployed srcRel target
                    else EvFail (''Failed to deploy '' @ srcRel @ '': '' @ error_Error P err)])"
proof -
  define w2 where "w2 = snd (os_MkdirAll P dir (advance w))"
  define w4 where "w4 = snd (fileHash P sp (advance w2))"
  define w5 where "w5 = snd (fileHash P target w4)"
  define w5' where "w5' = w5\<lparr>clock_reads := Suc (clock_reads w)\<rparr>"
  define w6 where "w6 = emit (BackedUp bak) (snd (copyFile P target bak w5'))"
  define up where "up \<longleftrightarrow> \<not> isl (fst (fileHash P sp (advance w2))) \<and> \<not> isl (fst (fileHash P target w4))
                \<and> fst (fileHash P sp (advance w2)) = fst (fileHash P target w4)"
  have sp_eq: "sp = filepath_Join P [scriptRoot w, srcRel]"
    by (simp add: sp_def sourcePath_of_def)
  note run = deployConfigFile_run [OF sp_eq dir_def w2_def w4_def w5_def bak_def
      w6_def [unfolded w5'_def] up_def, folded w'_def]
  \<comment> \<open>the calls are counted upwards, so the faults stay \<open>F\<close>\<close>
  have tk: "tick w \<le> tick (advance w)" "tick w \<le> tick w2" "tick w \<le> tick (advance w2)"
    "tick w \<le> tick w4" "tick w \<le> tick w5'" "tick w \<le> tick w6"
  proof -
    show "tick w \<le> tick (advance w)" "tick w \<le> tick w2" "tick w \<le> tick (advance w2)"
      by (simp_all add: w2_def)
    have "tick (advance w2) \<le> tick w4"
      unfolding w4_def by (rule fileHash_tick)
    then show 4: "tick w \<le> tick w4" by (simp add: w2_def)
    have "tick w4 \<le> tick w5"
      unfolding w5_def by (rule fileHash_tick)
    then show 5: "tick w \<le> tick w5'" using 4 by (simp add: w5'_def)
    have "tick w5' \<le> tick (snd (copyFile P target bak w5'))"
      by (rule copyFile_tick)
    then show "tick w \<le> tick w6" using 5 by (simp add: w6_def)
  qed
  note sts = tk [THEN steady_later [OF st]]
  \<comment> \<open>what the later states keep of \<open>w\<close>\<close>
  have n2: "nodes w2 p = nodes w p" if "p \<noteq> dir" for p
    using that by (simp add: w2_def os_MkdirAll_nodes)
  have c2: "content_at w2 = content_at w"
    by (simp add: w2_def fun_eq_iff)
  have n5: "nodes w5' = nodes w2"
    by (simp add: w5'_def w5_def w4_def)
  have c5: "content_at w5' = content_at w" "content_at w4 = content_at w"
    using c2 n5 content_at_nodes [of w5' w2] content_at_nodes [of w4 w2] by (simp_all add: w4_def)
  have n6: "nodes w6 p = nodes w5' p" if "p \<noteq> bak" for p
    using that by (simp add: w6_def copyFile_frame)
  have bt: "bak \<noteq> target"
    by (simp add: bak_def backup_name_def)
  have t2: "nodes w2 target = nodes w target"
    using dt n2 [of target] os_MkdirAll_keeps [of "advance w" target P dir]
    by (auto simp: w2_def)
  then have t6: "nodes w6 target = nodes w target"
    using n6 [of target] bt n5 by simp
  have s6: "content_at w6 sp \<noteq> None \<longleftrightarrow> content_at w sp \<noteq> None"
  proof
    assume "content_at w sp \<noteq> None"
    then show "content_at w6 sp \<noteq> None"
      using copyFile_File [of w5' sp P target bak] by (simp add: w6_def c5)
  next
    assume a: "content_at w6 sp \<noteq> None"
    show "content_at w sp \<noteq> None"
    proof (rule ccontr)
      assume "\<not> content_at w sp \<noteq> None"
      then have "nodes w sp = Some Dir"
        using src by (cases "nodes w sp") (auto simp: content_at_def split: node.splits)
      then have "nodes w5' sp = Some Dir"
        by (simp add: n5 w2_def os_MkdirAll_Dir)
      then have "nodes w6 sp = Some Dir"
        by (simp add: w6_def copyFile_Dir)
      with a show False by simp
    qed
  qed
  \<comment> \<open>the tests of the call, read off the state before it\<close>
  have e1: "\<not> os_IsNotExist (err_of (fst (os_Stat P sp w)))"
    using src by (rule os_Stat_exists)
  have e2: "fst (os_MkdirAll P dir (advance w)) = None \<longleftrightarrow> makeable F w dir"
    by (simp add: os_MkdirAll_steady [OF sts(1)] makeable_def)
  have e3: "isl (fst (os_Stat P target w2)) \<longleftrightarrow> \<not> found F w target"
    by (simp add: os_Stat_steady(1) [OF sts(2)] found_def t2)
  have h1: "hashable F (advance w2) sp = hashable F w sp" "hashable F w4 target = hashable F w target"
    by (simp_all add: hashable_def c2 c5)
  have e4: "up \<longleftrightarrow> same_fingerprint P F w sp target"
    unfolding up_def fileHash_steady [OF sts(3)] fileHash_steady [OF sts(4)] h1
    by (auto simp: same_fingerprint_def fingerprint_def hashable_def c2 c5)
  have e5: "fst (copyFile P sp target (advance w2)) = None \<longleftrightarrow> copyable F w sp target"
    by (simp add: copyFile_steady [OF sts(3)] copyable_def c2 t2)
  have e6: "fst (copyFile P sp target w6) = None \<longleftrightarrow> copyable F w sp target"
    using s6 by (simp add: copyFile_steady [OF sts(6)] copyable_def t6)
  have tr: "trace w2 = trace w" "trace w5 = trace w" "trace w6 = trace w @ [BackedUp bak]"
    by (simp_all add: w2_def w4_def w5_def w5'_def w6_def)
  obtain m1 where m1: "trace (deploy_copy P srcRel sp target (advance w2)) = trace w @
      [if copyable F w sp target then Deployed srcRel target else EvFail m1]"
    using deploy_copy_trace [of P srcRel sp target "advance w2"] by (auto simp: e5 tr)
  obtain m2 where m2: "trace (deploy_copy P srcRel sp target w6) = trace w @ [BackedUp bak] @
      [if copyable F w sp target then Deployed srcRel target else EvFail m2]"
    using deploy_copy_trace [of P srcRel sp target w6] by (auto simp: e6 tr)
  show "\<exists>m. new_events w w' =
           (if \<not> makeable F w dir then [EvFail (''Failed to create directory: '' @ dir)]
            else if found F w target \<and> same_fingerprint P F w sp target then [UpToDate target]
            else (if found F w target then [BackedUp bak] else [])
                 @ [if copyable F w sp target then Deployed srcRel target else EvFail m])"
  proof (cases "found F w target")
    case True
    then show ?thesis
      using run e1 e2 e3 e4 m2 tr
      by (intro exI [of _ m2]) (auto simp: new_events_def UpToDate_def)
  next
    case False
    then show ?thesis
      using run e1 e2 e3 e4 m1 tr
      by (intro exI [of _ m1]) (auto simp: new_events_def UpToDate_def)
  qed
  show "created w' = created w \<and> (\<forall>p. p \<noteq> dir \<longrightarrow> nodes w' p = nodes w p)
           \<and> (nodes w dir \<noteq> None \<longrightarrow> nodes w' = nodes w)"
    if "makeable F w dir" "found F w target" "same_fingerprint P F w sp target"
  proof -
    have w': "w' = writeSkip (target @ '' is up to date'') w5"
      using run e1 e2 e3 e4 that by simp
    have "nodes w2 = nodes w" if "nodes w dir \<noteq> None"
      using that by (auto simp: w2_def os_MkdirAll_def fun_eq_iff split: option.splits node.splits)
    then show ?thesis
      using n2 by (simp add: w' w5_def w4_def) (simp add: w2_def)
  qed
  show "\<not> backup_created target w w' \<and> (bak \<noteq> target \<and> bak \<noteq> dir \<longrightarrow> nodes w' bak = nodes w bak)"
    if f: "F (OpOpen target) \<or> F (OpCreate bak) \<or> nodes w bak = Some Dir"
  proof -
    have "nodes w bak = Some Dir \<Longrightarrow> nodes w5' bak = Some Dir"
      by (simp add: n5 w2_def os_MkdirAll_Dir)
    then have "io_fault P (tick w5') (OpOpen target) \<or> io_fault P (Suc (tick w5')) (OpCreate bak)
        \<or> nodes w5' bak = Some Dir"
      using f sts(5) by (auto simp: steady_def)
    then have k: "created (snd (copyFile P target bak w5')) = created w5'"
        "nodes (snd (copyFile P target bak w5')) = nodes w5'"
      using copyFile_not_created by blast+
    have c5': "created w5' = created w" "created (advance w2) = created w" "created w5 = created w"
      by (simp_all add: w5'_def w5_def w4_def w2_def)
    have "created w6 = created w5'"
      by (simp add: w6_def k)
    then have c6: "created w6 = created w" "created (advance w2) = created w" "created w5 = created w"
      using c5' by simp_all
    have cr: "new_created w w' = [] \<or> new_created w w' = [target]"
      using run copyFile_created [of P sp target w6] copyFile_created [of P sp target "advance w2"] c6
      by (auto simp: new_created_def w2_def split: if_splits)
    have nb: "nodes w' bak = nodes w bak" if "bak \<noteq> dir"
    proof -
      have "nodes w6 bak = nodes w5' bak"
        by (simp add: w6_def k)
      then have "nodes w6 bak = nodes w bak"
        using that by (simp add: n5 n2)
      moreover have "nodes (advance w2) bak = nodes w bak" "nodes w5 bak = nodes w bak"
        using that by (simp_all add: n2 w5_def w4_def)
      moreover have "nodes w2 bak = nodes w bak"
        using that by (simp add: n2)
      ultimately show ?thesis
        using run bt by (auto simp: copyFile_frame split: if_splits)
    qed
    show ?thesis
      using cr nb by (auto simp: backup_created_def)
  qed
  show "backup_created target w w' \<and> content_at w' bak = content_at w target"
    if "makeable F w dir" "found F w target" "\<not> same_fingerprint P F w sp target"
      "copyable F w target bak" "bak \<noteq> dir"
  proof -
    have w': "w' = deploy_copy P srcRel sp target w6"
      using run e1 e2 e3 e4 that(1-3) by simp
    have "nodes w5' bak = nodes w bak"
      using that(5) by (simp add: n5 n2)
    then have "copyable F w5' target bak"
      using that(4) by (simp add: copyable_def c5)
    then have ok: "fst (copyFile P target bak w5') = None"
      by (simp add: copyFile_steady [OF sts(5)])
    have c5': "created w5' = created w"
      by (simp add: w5'_def w5_def w4_def w2_def)
    have "created w6 = created w @ [bak]"
      using copyFile_created_ok [OF ok] c5' by (simp add: w6_def)
    then have "new_created w w' = [bak] \<or> new_created w w' = [bak, target]"
      using copyFile_created [of P sp target w6] by (auto simp: w' new_created_def)
    then have 1: "backup_created target w w'"
      unfolding bak_def backup_created_def using is_backup_of_backup_name [of target P w] by auto
    have "content_at w6 bak = content_at w5' target"
      using copyFile_ok(3) [OF ok] bt by (simp add: w6_def)
    moreover have "content_at w' bak = content_at w6 bak"
      using copyFile_frame [of bak target P sp w6] bt by (simp add: w' content_at_def)
    ultimately have 2: "content_at w' bak = content_at w target"
      by (simp add: c5)
    show ?thesis using 1 2 by simp
  qed
  show "(bak \<noteq> dir \<longrightarrow>
              (backup_created target w w' \<longleftrightarrow>
                 \<not> F (OpOpen target) \<and> \<not> F (OpCreate bak) \<and> nodes w bak \<noteq> Some Dir))
           \<and> (backup_created target w w' \<longrightarrow>
                (\<exists>d. content_at w' bak = Some d
                   \<and> prefix d (case content_at w target of Some old \<Rightarrow> old | None \<Rightarrow> [])))"
    if "makeable F w dir" "found F w target" "\<not> same_fingerprint P F w sp target"
  proof -
    let ?b = "snd (copyFile P target bak w5')"
    have w': "w' = deploy_copy P srcRel sp target w6"
      using run e1 e2 e3 e4 that(1-3) by simp
    have c5': "created w5' = created w"
      by (simp add: w5'_def w5_def w4_def w2_def)
    have f5: "io_fault P (tick w5') = F" "io_fault P (Suc (tick w5')) = F"
      using sts(5) by (simp_all add: steady_def)
    have ex: "nodes w5' target \<noteq> None"
      using that(2) by (simp add: n5 t2 found_def)
    have made: "created ?b = created w5' @ [bak] \<longleftrightarrow>
        \<not> F (OpOpen target) \<and> \<not> F (OpCreate bak) \<and> nodes w5' bak \<noteq> Some Dir"
      using ex by (auto simp: copyFile_created_iff os_Open_fst os_Create_isl f5)
    have cases: "created ?b = created w5' \<or> created ?b = created w5' @ [bak]"
      by (rule copyFile_created)
    have fin: "created w' = created w6 \<or> created w' = created w6 @ [target]"
      using copyFile_created [of P sp target w6] by (simp add: w')
    have c6: "created w6 = created ?b"
      by (simp add: w6_def)
    have bc: "backup_created target w w' \<longleftrightarrow> created ?b = created w5' @ [bak]"
      using cases fin is_backup_of_backup_name [of target P w]
      by (auto simp: backup_created_def new_created_def c6 c5' bak_def [symmetric])
    have 1: "backup_created target w w' \<longleftrightarrow>
        \<not> F (OpOpen target) \<and> \<not> F (OpCreate bak) \<and> nodes w bak \<noteq> Some Dir" if "bak \<noteq> dir"
      using that by (simp add: bc made n5 n2)
    have 2: "\<exists>d. content_at w' bak = Some d
        \<and> prefix d (case content_at w target of Some old \<Rightarrow> old | None \<Rightarrow> [])"
      if "backup_created target w w'"
    proof -
      have "created ?b = created w5' @ [bak]"
        using that by (simp add: bc)
      then obtain d where d: "content_at ?b bak = Some d"
          "prefix d (case content_at w5' target of Some old \<Rightarrow> old | None \<Rightarrow> [])"
        using copyFile_prefix [of P target bak w5'] bt by auto
      have "content_at w' bak = content_at w6 bak"
        using copyFile_frame [of bak target P sp w6] bt by (simp add: w' content_at_def)
      then have "content_at w' bak = Some d"
        using d(1) by (simp add: w6_def)
      then show ?thesis
        using d(2) by (simp add: c5)
    qed
    show ?thesis
      using 1 2 by blast
  qed
  show "\<exists>err. new_events w w' =
           (if \<not> makeable F w dir then [EvFail (''Failed to create directory: '' @ dir)]
            else if found F w target \<and> same_fingerprint P F w sp target then [UpToDate target]
            else (if found F w target then [BackedUp bak] else [])
                 @ [if copyable F w sp target then Deployed srcRel target
                    else EvFail (''Failed to deploy '' @ srcRel @ '': '' @ error_Error P err)])"
  proof (cases "found F w target")
    case True
    have "trace (deploy_copy P srcRel sp target w6) = trace w @ [BackedUp bak] @
        [if copyable F w sp target then Deployed srcRel target
         else EvFail (''Failed to deploy '' @ srcRel @ '': ''
                      @ error_Error P (the (fst (copyFile P sp target w6))))]"
      using deploy_copy_trace_err [of P srcRel sp target w6] by (simp add: e6 tr)
    then show ?thesis
      using True run e1 e2 e3 e4 tr
      by (intro exI [of _ "the (fst (copyFile P sp target w6))"]) (auto simp: new_events_def UpToDate_def)
  next
    case False
    have "trace (deploy_copy P srcRel sp target (advance w2)) = trace w @
        [if copyable F w sp target then Deployed srcRel target
         else EvFail (''Failed to deploy '' @ srcRel @ '': ''
                      @ error_Error P (the (fst (copyFile P sp target (advance w2)))))]"
      using deploy_copy_trace_err [of P srcRel sp target "advance w2"] by (simp add: e5 tr)
    then show ?thesis
      using False run e1 e2 e3 e4 tr
      by (intro exI [of _ "the (fst (copyFile P sp target (advance w2)))"])
         (auto simp: new_events_def UpToDate_def)
  qed
qed

lemma deploy_backup_only_in_step:
  "backup_created target w (deployConfigFile P srcRel target w) \<Longrightarrow>
     BackedUp (backup_name P target w) \<in> set (new_events w (deployConfigFile P srcRel target w))"
proof -
  define sp where "sp = filepath_Join P [scriptRoot w, srcRel]"
  define dir where "dir = filepath_Dir P target"
  define w2 where "w2 = snd (os_MkdirAll P dir (advance w))"
  define w4 where "w4 = snd (fileHash P sp (advance w2))"
  define w5 where "w5 = snd (fileHash P target w4)"
  define bak where "bak = backup_name P target w"
  define w5' where "w5' = w5\<lparr>clock_reads := Suc (clock_reads w)\<rparr>"
  define w6 where "w6 = emit (BackedUp bak) (snd (copyFile P target bak w5'))"
  define up where "up \<longleftrightarrow> \<not> isl (fst (fileHash P sp (advance w2))) \<and> \<not> isl (fst (fileHash P target w4))
                \<and> fst (fileHash P sp (advance w2)) = fst (fileHash P target w4)"
  define w' where "w' = deployConfigFile P srcRel target w"
  note run = deployConfigFile_run [OF sp_def dir_def w2_def w4_def w5_def bak_def
      w6_def [unfolded w5'_def] up_def, folded w'_def]
  assume b: "backup_created target w (deployConfigFile P srcRel target w)"
  have c2: "created (advance w) = created w" "created w2 = created w" "created (advance w2) = created w"
    "created w5 = created w"
    by (simp_all add: w2_def w5_def w4_def)
  have nb: "\<not> list_ex (is_backup_of target) cs" if "cs = [] \<or> cs = [target]" for cs
    using that by auto
  consider (quiet) "new_created w w' = [] \<or> new_created w w' = [target]"
    | (e) "w' = deploy_copy P srcRel sp target w6"
    using run copyFile_created [of P sp target "advance w2"] c2
    by (auto simp: new_created_def split: if_splits)
  then show ?thesis
  proof cases
    case quiet
    then show ?thesis
      using b nb by (simp add: backup_created_def w'_def)
  next
    case e
    obtain m where "trace w' = trace w6 @ [if fst (copyFile P sp target w6) = None
                       then Deployed srcRel target else EvFail m]"
      using deploy_copy_trace [of P srcRel sp target w6] e by auto
    moreover have "trace w6 = trace w @ [BackedUp bak]"
      by (simp add: w6_def w5'_def w5_def w4_def w2_def)
    ultimately have "BackedUp bak \<in> set (new_events w w')"
      by (simp add: new_events_def)
    then show ?thesis
      by (simp add: w'_def bak_def)
  qed
qed

lemma deploy_new_failures:
  "new_failures w (deployConfigFile P srcRel target w)
     = fails_of (new_events w (deployConfigFile P srcRel target w))"
  using grown_new(2) [OF grown_deployConfigFile [OF grown_refl]] .

text \<open>
  C1, as amended.  Take a call whose source exists, whose faults are steady during the call
  and whose target is not its own directory.  It takes the backup step (it copies the target to
  \<open>target.bak.\<close> and the time stamp, and prints that it backed the target up) if and only
  if the target's directory can be made, \<^verbatim>\<open>os.Stat\<close> finds the target, and it is not the
  case that both fingerprints are computed and equal.  A backup file is created in that
  step only; it is created there, with the bytes the target had, when the copy to the
  backup name can succeed.
\<close>

theorem deploy_backup_step_iff:
  assumes "steady P w F" and "nodes w (sourcePath_of P w srcRel) \<noteq> None"
    and "filepath_Dir P target \<noteq> target"
  shows "(BackedUp (backup_name P target w) \<in> set (new_events w (deployConfigFile P srcRel target w))
          \<longleftrightarrow> makeable F w (filepath_Dir P target) \<and> found F w target
              \<and> \<not> same_fingerprint P F w (sourcePath_of P w srcRel) target)
    \<and> (backup_created target w (deployConfigFile P srcRel target w)
          \<longrightarrow> BackedUp (backup_name P target w) \<in> set (new_events w (deployConfigFile P srcRel target w)))
    \<and> (BackedUp (backup_name P target w) \<in> set (new_events w (deployConfigFile P srcRel target w))
        \<and> copyable F w target (backup_name P target w) \<and> backup_name P target w \<noteq> filepath_Dir P target
          \<longrightarrow> backup_created target w (deployConfigFile P srcRel target w)
              \<and> content_at (deployConfigFile P srcRel target w) (backup_name P target w)
                  = content_at w target)"
proof -
  have dt: "filepath_Dir P target \<noteq> target \<or> nodes w target \<noteq> None"
    using assms(3) by simp
  obtain m where "new_events w (deployConfigFile P srcRel target w) =
      (if \<not> makeable F w (filepath_Dir P target)
       then [EvFail (''Failed to create directory: '' @ filepath_Dir P target)]
       else if found F w target \<and> same_fingerprint P F w (sourcePath_of P w srcRel) target
       then [UpToDate target]
       else (if found F w target then [BackedUp (backup_name P target w)] else [])
            @ [if copyable F w (sourcePath_of P w srcRel) target then Deployed srcRel target else EvFail m])"
    using deploy_steady(1) [OF refl refl refl refl assms(1,2) dt] by blast
  then have step: "BackedUp (backup_name P target w) \<in> set (new_events w (deployConfigFile P srcRel target w))
          \<longleftrightarrow> makeable F w (filepath_Dir P target) \<and> found F w target
              \<and> \<not> same_fingerprint P F w (sourcePath_of P w srcRel) target"
    by (auto simp: BackedUp_def Deployed_def UpToDate_def)
  show ?thesis
    using step deploy_backup_only_in_step [of target w P srcRel]
      deploy_steady(4) [OF refl refl refl refl assms(1,2) dt]
    by blast
qed

text \<open>
  C1 as stated fails: source and target hold the same bytes, so their fingerprints are
  equal, but the source cannot be opened (it is locked, say).  The fingerprint of the source
  cannot be computed, the files count as differing, and a backup of the target is created.
\<close>

theorem deploy_backup_step_iff_counterexample:
  "content_at (demo_world (demo_fs (Some (''X'', 3)))) ''/repo/a.conf'' = Some ''X''
   \<and> content_at (demo_world (demo_fs (Some (''X'', 3)))) ''/home/u/a.conf'' = Some ''X''
   \<and> fingerprint (demo_os (\<lambda>op. op = OpOpen ''/repo/a.conf'')) (demo_world (demo_fs (Some (''X'', 3)))) ''/home/u/a.conf''
       = fingerprint (demo_os (\<lambda>op. op = OpOpen ''/repo/a.conf'')) (demo_world (demo_fs (Some (''X'', 3)))) ''/repo/a.conf''
   \<and> backup_created ''/home/u/a.conf'' (demo_world (demo_fs (Some (''X'', 3))))
        (demo_deploy (\<lambda>op. op = OpOpen ''/repo/a.conf'') (demo_world (demo_fs (Some (''X'', 3)))))"
  by (simp add: deploy_eval)

text \<open>
  The target holds other bytes than the source: the backup step is taken and the backup
  holds them.
\<close>

theorem deploy_backup_step_iff_witness:
  "steady (demo_os (\<lambda>op. False)) (demo_world (demo_fs (Some (''Y'', 3)))) (\<lambda>op. False)
   \<and> nodes (demo_world (demo_fs (Some (''Y'', 3))))
        (sourcePath_of (demo_os (\<lambda>op. False)) (demo_world (demo_fs (Some (''Y'', 3)))) ''a.conf'') \<noteq> None
   \<and> filepath_Dir (demo_os (\<lambda>op. False)) ''/home/u/a.conf'' \<noteq> ''/home/u/a.conf''
   \<and> BackedUp ''/home/u/a.conf.bak.20240101-120000''
       \<in> set (new_events (demo_world (demo_fs (Some (''Y'', 3))))
            (demo_deploy (\<lambda>op. False) (demo_world (demo_fs (Some (''Y'', 3))))))
   \<and> backup_created ''/home/u/a.conf'' (demo_world (demo_fs (Some (''Y'', 3))))
        (demo_deploy (\<lambda>op. False) (demo_world (demo_fs (Some (''Y'', 3)))))
   \<and> content_at (demo_deploy (\<lambda>op. False) (demo_world (demo_fs (Some (''Y'', 3)))))
        ''/home/u/a.conf.bak.20240101-120000'' = Some ''Y''"
proof -
  let ?P = "demo_os (\<lambda>op. False)" and ?w = "demo_world (demo_fs (Some (''Y'', 3)))"
  have h: "steady ?P ?w (\<lambda>op. False)" "nodes ?w (sourcePath_of ?P ?w ''a.conf'') \<noteq> None"
    "filepath_Dir ?P ''/home/u/a.conf'' \<noteq> ''/home/u/a.conf''"
    by (simp_all add: env_eval)
  have e: "makeable (\<lambda>op. False) ?w (filepath_Dir ?P ''/home/u/a.conf'')"
    "found (\<lambda>op. False) ?w ''/home/u/a.conf''"
    "\<not> same_fingerprint ?P (\<lambda>op. False) ?w (sourcePath_of ?P ?w ''a.conf'') ''/home/u/a.conf''"
    "copyable (\<lambda>op. False) ?w ''/home/u/a.conf'' (backup_name ?P ''/home/u/a.conf'' ?w)"
    "backup_name ?P ''/home/u/a.conf'' ?w \<noteq> filepath_Dir ?P ''/home/u/a.conf''"
    "backup_name ?P ''/home/u/a.conf'' ?w = ''/home/u/a.conf.bak.20240101-120000''"
    "content_at ?w ''/home/u/a.conf'' = Some ''Y''"
    by (simp_all add: env_eval)
  show ?thesis
    using deploy_backup_step_iff [OF h] h e by (simp add: demo_deploy_def)
qed

text \<open>
  C10, as amended.  When the target exists and the fingerprint of the source or of the
  target cannot be computed, \<open>deployConfigFile\<close> treats the files as differing: it does not
  report \<open>UpToDate\<close> and takes the backup step.  The error of the fingerprint is not logged.
  The call reports \<open>Deployed\<close> and logs nothing when the final copy can succeed, and logs
  one failure when it cannot, which with steady faults is so whenever it was the source
  whose fingerprint could not be computed.
\<close>

theorem deploy_hash_failure_counts_as_differing:
  assumes "steady P w F" and "nodes w (sourcePath_of P w srcRel) \<noteq> None"
    and "makeable F w (filepath_Dir P target)" and "found F w target"
    and "\<not> hashable F w (sourcePath_of P w srcRel) \<or> \<not> hashable F w target"
  shows "UpToDate target \<notin> set (new_events w (deployConfigFile P srcRel target w))
    \<and> BackedUp (backup_name P target w) \<in> set (new_events w (deployConfigFile P srcRel target w))
    \<and> (if copyable F w (sourcePath_of P w srcRel) target
        then Deployed srcRel target \<in> set (new_events w (deployConfigFile P srcRel target w))
             \<and> new_failures w (deployConfigFile P srcRel target w) = []
        else Deployed srcRel target \<notin> set (new_events w (deployConfigFile P srcRel target w))
             \<and> length (new_failures w (deployConfigFile P srcRel target w)) = 1)
    \<and> (\<not> hashable F w (sourcePath_of P w srcRel)
        \<longrightarrow> length (new_failures w (deployConfigFile P srcRel target w)) = 1)"
proof -
  have dt: "filepath_Dir P target \<noteq> target \<or> nodes w target \<noteq> None"
    using assms(4) by (simp add: found_def)
  obtain m where "new_events w (deployConfigFile P srcRel target w) =
      (if \<not> makeable F w (filepath_Dir P target)
       then [EvFail (''Failed to create directory: '' @ filepath_Dir P target)]
       else if found F w target \<and> same_fingerprint P F w (sourcePath_of P w srcRel) target
       then [UpToDate target]
       else (if found F w target then [BackedUp (backup_name P target w)] else [])
            @ [if copyable F w (sourcePath_of P w srcRel) target then Deployed srcRel target else EvFail m])"
    using deploy_steady(1) [OF refl refl refl refl assms(1,2) dt] by blast
  moreover have "\<not> same_fingerprint P F w (sourcePath_of P w srcRel) target"
    using assms(5) by (auto simp: same_fingerprint_def)
  moreover have "\<not> copyable F w (sourcePath_of P w srcRel) target"
    if "\<not> hashable F w (sourcePath_of P w srcRel)"
    using that by (auto simp: hashable_def copyable_def)
  ultimately show ?thesis
    using assms(3,4) by (auto simp: deploy_new_failures BackedUp_def Deployed_def UpToDate_def)
qed

text \<open>
  C10 as stated fails: the target exists and the source cannot be opened, so its fingerprint
  cannot be computed.  The call does not overwrite the target and it does record a failure,
  because the final copy cannot open the source either.
\<close>

theorem deploy_hash_failure_counterexample:
  "content_at (demo_world (demo_fs (Some (''Y'', 3)))) ''/home/u/a.conf'' = Some ''Y''
   \<and> isl (fst (fileHash (demo_os (\<lambda>op. op = OpOpen ''/repo/a.conf'')) ''/repo/a.conf''
           (demo_world (demo_fs (Some (''Y'', 3))))))
   \<and> new_failures (demo_world (demo_fs (Some (''Y'', 3))))
        (demo_deploy (\<lambda>op. op = OpOpen ''/repo/a.conf'') (demo_world (demo_fs (Some (''Y'', 3)))))
       = [''Failed to deploy a.conf: open /repo/a.conf: Access is denied.'']
   \<and> content_at (demo_deploy (\<lambda>op. op = OpOpen ''/repo/a.conf'') (demo_world (demo_fs (Some (''Y'', 3)))))
        ''/home/u/a.conf'' = Some ''Y''"
  by (simp add: deploy_eval)

text \<open>
  The target cannot be read: its fingerprint cannot be computed, the backup step is taken
  and the target is replaced.
\<close>

theorem deploy_hash_failure_counts_as_differing_witness:
  "steady (demo_os (\<lambda>op. op = OpRead ''/home/u/a.conf'')) (demo_world (demo_fs (Some (''Y'', 3))))
     (\<lambda>op. op = OpRead ''/home/u/a.conf'')
   \<and> found (\<lambda>op. op = OpRead ''/home/u/a.conf'') (demo_world (demo_fs (Some (''Y'', 3)))) ''/home/u/a.conf''
   \<and> \<not> hashable (\<lambda>op. op = OpRead ''/home/u/a.conf'') (demo_world (demo_fs (Some (''Y'', 3)))) ''/home/u/a.conf''
   \<and> UpToDate ''/home/u/a.conf''
       \<notin> set (new_events (demo_world (demo_fs (Some (''Y'', 3))))
            (demo_deploy (\<lambda>op. op = OpRead ''/home/u/a.conf'') (demo_world (demo_fs (Some (''Y'', 3))))))
   \<and> BackedUp ''/home/u/a.conf.bak.20240101-120000''
       \<in> set (new_events (demo_world (demo_fs (Some (''Y'', 3))))
            (demo_deploy (\<lambda>op. op = OpRead ''/home/u/a.conf'') (demo_world (demo_fs (Some (''Y'', 3))))))
   \<and> Deployed ''a.conf'' ''/home/u/a.conf''
       \<in> set (new_events (demo_world (demo_fs (Some (''Y'', 3))))
            (demo_deploy (\<lambda>op. op = OpRead ''/home/u/a.conf'') (demo_world (demo_fs (Some (''Y'', 3))))))"
proof -
  let ?F = "\<lambda>op. op = OpRead ''/home/u/a.conf''"
  let ?P = "demo_os ?F" and ?w = "demo_world (demo_fs (Some (''Y'', 3)))"
  have h: "steady ?P ?w ?F" "nodes ?w (sourcePath_of ?P ?w ''a.conf'') \<noteq> None"
    "makeable ?F ?w (filepath_Dir ?P ''/home/u/a.conf'')" "found ?F ?w ''/home/u/a.conf''"
    "\<not> hashable ?F ?w (sourcePath_of ?P ?w ''a.conf'') \<or> \<not> hashable ?F ?w ''/home/u/a.conf''"
    by (simp_all add: env_eval)
  have e: "copyable ?F ?w (sourcePath_of ?P ?w ''a.conf'') ''/home/u/a.conf''"
    "\<not> hashable ?F ?w ''/home/u/a.conf''"
    "backup_name ?P ''/home/u/a.conf'' ?w = ''/home/u/a.conf.bak.20240101-120000''"
    by (simp_all add: env_eval)
  show ?thesis
    using deploy_hash_failure_counts_as_differing [OF h] h e by (simp add: demo_deploy_def)
qed

text \<open>
  C9, as amended.  When the backup step is taken, the copy of the target to the backup name
  fails and the copy of the source onto the target succeeds, \<open>deployConfigFile\<close> prints
  that it backed the target up, reports \<open>Deployed\<close>, appends nothing to the failure log,
  and the target holds the bytes of the source.  A whole backup of the replaced bytes need
  not exist: no backup file was created when the target could not be opened or the backup
  file could not be created; otherwise one was created, and it holds a prefix of the
  replaced bytes, which can be none of them or all of them.
  The faults are steady during the call, so that \<open>copyable\<close> says which copy succeeds.
\<close>

theorem deploy_backup_error_ignored:
  assumes "steady P w F"
    and "makeable F w (filepath_Dir P target)" and "found F w target"
    and "\<not> same_fingerprint P F w (sourcePath_of P w srcRel) target"
    and "\<not> copyable F w target (backup_name P target w)"
    and "copyable F w (sourcePath_of P w srcRel) target"
  shows "new_events w (deployConfigFile P srcRel target w)
           = [BackedUp (backup_name P target w), Deployed srcRel target]
    \<and> new_failures w (deployConfigFile P srcRel target w) = []
    \<and> content_at (deployConfigFile P srcRel target w) target \<noteq> None
    \<and> content_at (deployConfigFile P srcRel target w) target
        = content_at (deployConfigFile P srcRel target w) (sourcePath_of P w srcRel)
    \<and> (sourcePath_of P w srcRel \<noteq> target \<and> sourcePath_of P w srcRel \<noteq> backup_name P target w
        \<longrightarrow> content_at (deployConfigFile P srcRel target w) target
            = content_at w (sourcePath_of P w srcRel))
    \<and> (F (OpOpen target) \<or> F (OpCreate (backup_name P target w))
          \<or> nodes w (backup_name P target w) = Some Dir
        \<longrightarrow> \<not> backup_created target w (deployConfigFile P srcRel target w))
    \<and> (\<not> F (OpOpen target) \<and> \<not> F (OpCreate (backup_name P target w))
          \<and> nodes w (backup_name P target w) \<noteq> Some Dir
          \<and> backup_name P target w \<noteq> filepath_Dir P target
        \<longrightarrow> backup_created target w (deployConfigFile P srcRel target w))
    \<and> (backup_created target w (deployConfigFile P srcRel target w)
        \<longrightarrow> (\<exists>d. content_at (deployConfigFile P srcRel target w) (backup_name P target w) = Some d
              \<and> prefix d (case content_at w target of Some old \<Rightarrow> old | None \<Rightarrow> [])))"
proof -
  have src: "nodes w (sourcePath_of P w srcRel) \<noteq> None"
    using assms(6) content_at_exists(1) by (simp add: copyable_def)
  have dt: "filepath_Dir P target \<noteq> target \<or> nodes w target \<noteq> None"
    using assms(3) by (simp add: found_def)
  obtain m where "new_events w (deployConfigFile P srcRel target w) =
      (if \<not> makeable F w (filepath_Dir P target)
       then [EvFail (''Failed to create directory: '' @ filepath_Dir P target)]
       else if found F w target \<and> same_fingerprint P F w (sourcePath_of P w srcRel) target
       then [UpToDate target]
       else (if found F w target then [BackedUp (backup_name P target w)] else [])
            @ [if copyable F w (sourcePath_of P w srcRel) target then Deployed srcRel target else EvFail m])"
    using deploy_steady(1) [OF refl refl refl refl assms(1) src dt] by blast
  then have ev: "new_events w (deployConfigFile P srcRel target w)
           = [BackedUp (backup_name P target w), Deployed srcRel target]"
    using assms by simp
  then have "Deployed srcRel target \<in> set (new_events w (deployConfigFile P srcRel target w))"
    by simp
  note d = deployed_state [OF this]
  note b = deploy_steady(5) [OF refl refl refl refl assms(1) src dt assms(2,3,4)]
  have 1: "F (OpOpen target) \<or> F (OpCreate (backup_name P target w))
          \<or> nodes w (backup_name P target w) = Some Dir
        \<longrightarrow> \<not> backup_created target w (deployConfigFile P srcRel target w)"
    using deploy_steady(3) [OF refl refl refl refl assms(1) src dt] by blast
  have 2: "\<not> F (OpOpen target) \<and> \<not> F (OpCreate (backup_name P target w))
          \<and> nodes w (backup_name P target w) \<noteq> Some Dir
          \<and> backup_name P target w \<noteq> filepath_Dir P target
        \<longrightarrow> backup_created target w (deployConfigFile P srcRel target w)"
    using b by blast
  have 3: "backup_created target w (deployConfigFile P srcRel target w)
        \<longrightarrow> (\<exists>d. content_at (deployConfigFile P srcRel target w) (backup_name P target w) = Some d
              \<and> prefix d (case content_at w target of Some old \<Rightarrow> old | None \<Rightarrow> []))"
    using b by blast
  show ?thesis
    by (intro conjI ev 1 2 3 d [THEN conjunct1] d [THEN conjunct2, THEN conjunct1]
        d [THEN conjunct2, THEN conjunct2, THEN conjunct1]
        d [THEN conjunct2, THEN conjunct2, THEN conjunct2, THEN conjunct1])
qed

text \<open>
  C9 as stated fails in its last part: reading the target fails after its last byte was
  delivered.  The fingerprint of the target cannot be computed, the backup step is taken,
  the copy to the backup name returns the error of the read, the source is copied onto the
  target and \<open>Deployed\<close> is reported with nothing logged; yet the backup file exists and
  holds the replaced bytes in full.
\<close>

theorem deploy_backup_error_ignored_counterexample:
  "content_at (demo_world (demo_fs (Some (''Y'', 3)))) ''/home/u/a.conf'' = Some ''Y''
   \<and> fst (copyFile ((demo_os (\<lambda>op. op = OpRead ''/home/u/a.conf''))\<lparr>io_partial := (\<lambda>n. 1)\<rparr>)
          ''/home/u/a.conf'' ''/home/u/a.conf.bak.20240101-120000'' (demo_world (demo_fs (Some (''Y'', 3)))))
       = Some (PathError ''read'' ''/home/u/a.conf'' ErrFault)
   \<and> new_events (demo_world (demo_fs (Some (''Y'', 3))))
        (deployConfigFile ((demo_os (\<lambda>op. op = OpRead ''/home/u/a.conf''))\<lparr>io_partial := (\<lambda>n. 1)\<rparr>)
           ''a.conf'' ''/home/u/a.conf'' (demo_world (demo_fs (Some (''Y'', 3)))))
       = [BackedUp ''/home/u/a.conf.bak.20240101-120000'', Deployed ''a.conf'' ''/home/u/a.conf'']
   \<and> new_failures (demo_world (demo_fs (Some (''Y'', 3))))
        (deployConfigFile ((demo_os (\<lambda>op. op = OpRead ''/home/u/a.conf''))\<lparr>io_partial := (\<lambda>n. 1)\<rparr>)
           ''a.conf'' ''/home/u/a.conf'' (demo_world (demo_fs (Some (''Y'', 3))))) = []
   \<and> content_at (deployConfigFile ((demo_os (\<lambda>op. op = OpRead ''/home/u/a.conf''))\<lparr>io_partial := (\<lambda>n. 1)\<rparr>)
           ''a.conf'' ''/home/u/a.conf'' (demo_world (demo_fs (Some (''Y'', 3)))))
        ''/home/u/a.conf'' = Some ''X''
   \<and> backup_created ''/home/u/a.conf'' (demo_world (demo_fs (Some (''Y'', 3))))
        (deployConfigFile ((demo_os (\<lambda>op. op = OpRead ''/home/u/a.conf''))\<lparr>io_partial := (\<lambda>n. 1)\<rparr>)
           ''a.conf'' ''/home/u/a.conf'' (demo_world (demo_fs (Some (''Y'', 3)))))
   \<and> content_at (deployConfigFile ((demo_os (\<lambda>op. op = OpRead ''/home/u/a.conf''))\<lparr>io_partial := (\<lambda>n. 1)\<rparr>)
           ''a.conf'' ''/home/u/a.conf'' (demo_world (demo_fs (Some (''Y'', 3)))))
        ''/home/u/a.conf.bak.20240101-120000'' = Some ''Y''"
  by (simp add: deploy_eval)

text \<open>
  The backup file cannot be created: the call reports \<open>Deployed\<close> all the same, the target
  holds the bytes of the source, and there is no backup.
\<close>

theorem deploy_backup_error_ignored_witness:
  "steady (demo_os (\<lambda>op. op = OpCreate ''/home/u/a.conf.bak.20240101-120000''))
     (demo_world (demo_fs (Some (''Y'', 3)))) (\<lambda>op. op = OpCreate ''/home/u/a.conf.bak.20240101-120000'')
   \<and> makeable (\<lambda>op. op = OpCreate ''/home/u/a.conf.bak.20240101-120000'')
        (demo_world (demo_fs (Some (''Y'', 3)))) ''/home/u''
   \<and> found (\<lambda>op. op = OpCreate ''/home/u/a.conf.bak.20240101-120000'')
        (demo_world (demo_fs (Some (''Y'', 3)))) ''/home/u/a.conf''
   \<and> \<not> same_fingerprint (demo_os (\<lambda>op. op = OpCreate ''/home/u/a.conf.bak.20240101-120000''))
        (\<lambda>op. op = OpCreate ''/home/u/a.conf.bak.20240101-120000'')
        (demo_world (demo_fs (Some (''Y'', 3)))) ''/repo/a.conf'' ''/home/u/a.conf''
   \<and> \<not> copyable (\<lambda>op. op = OpCreate ''/home/u/a.conf.bak.20240101-120000'')
        (demo_world (demo_fs (Some (''Y'', 3)))) ''/home/u/a.conf'' ''/home/u/a.conf.bak.20240101-120000''
   \<and> copyable (\<lambda>op. op = OpCreate ''/home/u/a.conf.bak.20240101-120000'')
        (demo_world (demo_fs (Some (''Y'', 3)))) ''/repo/a.conf'' ''/home/u/a.conf''
   \<and> new_events (demo_world (demo_fs (Some (''Y'', 3))))
        (demo_deploy (\<lambda>op. op = OpCreate ''/home/u/a.conf.bak.20240101-120000'')
           (demo_world (demo_fs (Some (''Y'', 3)))))
       = [BackedUp ''/home/u/a.conf.bak.20240101-120000'', Deployed ''a.conf'' ''/home/u/a.conf'']
   \<and> new_failures (demo_world (demo_fs (Some (''Y'', 3))))
        (demo_deploy (\<lambda>op. op = OpCreate ''/home/u/a.conf.bak.20240101-120000'')
           (demo_world (demo_fs (Some (''Y'', 3))))) = []
   \<and> content_at (demo_deploy (\<lambda>op. op = OpCreate ''/home/u/a.conf.bak.20240101-120000'')
           (demo_world (demo_fs (Some (''Y'', 3))))) ''/home/u/a.conf'' = Some ''X''
   \<and> \<not> backup_created ''/home/u/a.conf'' (demo_world (demo_fs (Some (''Y'', 3))))
        (demo_deploy (\<lambda>op. op = OpCreate ''/home/u/a.conf.bak.20240101-120000'')
           (demo_world (demo_fs (Some (''Y'', 3)))))"
proof -
  let ?F = "\<lambda>op. op = OpCreate ''/home/u/a.conf.bak.20240101-120000''"
  let ?P = "demo_os ?F" and ?w = "demo_world (demo_fs (Some (''Y'', 3)))"
  have b: "backup_name ?P ''/home/u/a.conf'' ?w = ''/home/u/a.conf.bak.20240101-120000''"
    and s: "sourcePath_of ?P ?w ''a.conf'' = ''/repo/a.conf''"
    and d: "filepath_Dir ?P ''/home/u/a.conf'' = ''/home/u''"
    and c: "content_at ?w ''/repo/a.conf'' = Some ''X''"
    by (simp_all add: env_eval)
  have h: "steady ?P ?w ?F"
    "makeable ?F ?w (filepath_Dir ?P ''/home/u/a.conf'')" "found ?F ?w ''/home/u/a.conf''"
    "\<not> same_fingerprint ?P ?F ?w (sourcePath_of ?P ?w ''a.conf'') ''/home/u/a.conf''"
    "\<not> copyable ?F ?w ''/home/u/a.conf'' (backup_name ?P ''/home/u/a.conf'' ?w)"
    "copyable ?F ?w (sourcePath_of ?P ?w ''a.conf'') ''/home/u/a.conf''"
    by (simp_all add: env_eval)
  note t = deploy_backup_error_ignored [OF h]
  have ov: "content_at (deployConfigFile ?P ''a.conf'' ''/home/u/a.conf'' ?w) ''/home/u/a.conf'' = Some ''X''"
    using t [THEN conjunct2, THEN conjunct2, THEN conjunct2, THEN conjunct2, THEN conjunct1]
    by (simp add: b s c)
  have nb: "\<not> backup_created ''/home/u/a.conf'' ?w (deployConfigFile ?P ''a.conf'' ''/home/u/a.conf'' ?w)"
    using t [THEN conjunct2, THEN conjunct2, THEN conjunct2, THEN conjunct2, THEN conjunct2, THEN conjunct1]
    by (simp add: b)
  show ?thesis
    using t [THEN conjunct1] t [THEN conjunct2, THEN conjunct1] h ov nb
    by (simp add: demo_deploy_def b s d)
qed

text \<open>
  C4, as amended.  After a call that reports \<open>Deployed\<close>, a second call with the same source
  and target, from a state with the same files and in which no library call fails, reports
  \<open>UpToDate\<close> and nothing else, logs no failure, creates no file and leaves the file system
  as it is.
\<close>

theorem deploy_idempotent:
  assumes "Deployed srcRel target \<in> set (new_events w (deployConfigFile P srcRel target w))"
    and "nodes v = nodes (deployConfigFile P srcRel target w)"
    and "scriptRoot v = scriptRoot (deployConfigFile P srcRel target w)"
    and "steady P v (\<lambda>op. False)"
  shows "new_events v (deployConfigFile P srcRel target v) = [UpToDate target]
    \<and> new_failures v (deployConfigFile P srcRel target v) = []
    \<and> new_created v (deployConfigFile P srcRel target v) = []
    \<and> nodes (deployConfigFile P srcRel target v) = nodes v"
proof -
  let ?F = "\<lambda>op::sysop. False"
  define w1 where "w1 = deployConfigFile P srcRel target w"
  define sp where "sp = sourcePath_of P w srcRel"
  define dir where "dir = filepath_Dir P target"
  note d = deployed_state [OF assms(1), folded w1_def sp_def dir_def]
  have cv: "content_at v = content_at w1"
    using assms(2) content_at_nodes [of v w1] by (simp add: w1_def)
  have spv: "sourcePath_of P v srcRel = sp"
    using d assms(3) by (simp add: sourcePath_of_def sp_def w1_def)
  have dirv: "nodes v dir = Some Dir"
    using d assms(2) by (simp add: w1_def)
  have tgt: "content_at v target \<noteq> None" "content_at v sp \<noteq> None"
      "content_at v target = content_at v sp"
    using d by (auto simp: cv)
  have 1: "nodes v (sourcePath_of P v srcRel) \<noteq> None"
    unfolding spv using tgt(2) by (rule content_at_exists)
  have 2: "dir \<noteq> target \<or> nodes v target \<noteq> None"
    using dirv tgt(1) by auto
  have 3: "makeable ?F v dir"
    using dirv by (simp add: makeable_def)
  have 4: "found ?F v target"
    using content_at_exists(1) [OF tgt(1)] by (simp add: found_def)
  have 5: "same_fingerprint P ?F v (sourcePath_of P v srcRel) target"
    unfolding spv using tgt by (simp add: same_fingerprint_def hashable_def fingerprint_def)
  obtain m where "new_events v (deployConfigFile P srcRel target v) =
      (if \<not> makeable ?F v dir
       then [EvFail (''Failed to create directory: '' @ dir)]
       else if found ?F v target \<and> same_fingerprint P ?F v (sourcePath_of P v srcRel) target
       then [UpToDate target]
       else (if found ?F v target then [BackedUp (backup_name P target v)] else [])
            @ [if copyable ?F v (sourcePath_of P v srcRel) target then Deployed srcRel target else EvFail m])"
    using deploy_steady(1) [OF refl dir_def refl refl assms(4) 1 2] by blast
  then have ev: "new_events v (deployConfigFile P srcRel target v) = [UpToDate target]"
    using 3 4 5 by simp
  have "created (deployConfigFile P srcRel target v) = created v
      \<and> nodes (deployConfigFile P srcRel target v) = nodes v"
    using deploy_steady(2) [OF refl dir_def refl refl assms(4) 1 2 3 4 5] dirv by simp
  then show ?thesis
    using ev by (simp add: deploy_new_failures UpToDate_def new_created_def)
qed

text \<open>
  C4 as stated fails: the target cannot be read.  The first call finds no target and
  deploys the source.  Neither file changes; the second call cannot compute the fingerprint
  of the target, so the files count as differing: it creates a backup file and reports
  \<open>Deployed\<close> again, not \<open>UpToDate\<close>.
\<close>

theorem deploy_idempotent_counterexample:
  "new_events (demo_world (demo_fs None))
       (demo_deploy (\<lambda>op. op = OpRead ''/home/u/a.conf'') (demo_world (demo_fs None)))
     = [Deployed ''a.conf'' ''/home/u/a.conf'']
   \<and> new_failures (demo_world (demo_fs None))
       (demo_deploy (\<lambda>op. op = OpRead ''/home/u/a.conf'') (demo_world (demo_fs None))) = []
   \<and> content_at (demo_deploy (\<lambda>op. op = OpRead ''/home/u/a.conf'') (demo_world (demo_fs None)))
       ''/repo/a.conf'' = Some ''X''
   \<and> content_at (demo_deploy (\<lambda>op. op = OpRead ''/home/u/a.conf'') (demo_world (demo_fs None)))
       ''/home/u/a.conf'' = Some ''X''
   \<and> new_events (demo_deploy (\<lambda>op. op = OpRead ''/home/u/a.conf'') (demo_world (demo_fs None)))
       (demo_deploy (\<lambda>op. op = OpRead ''/home/u/a.conf'')
          (demo_deploy (\<lambda>op. op = OpRead ''/home/u/a.conf'') (demo_world (demo_fs None))))
     = [BackedUp ''/home/u/a.conf.bak.20240101-120000'', Deployed ''a.conf'' ''/home/u/a.conf'']
   \<and> backup_created ''/home/u/a.conf''
       (demo_deploy (\<lambda>op. op = OpRead ''/home/u/a.conf'') (demo_world (demo_fs None)))
       (demo_deploy (\<lambda>op. op = OpRead ''/home/u/a.conf'')
          (demo_deploy (\<lambda>op. op = OpRead ''/home/u/a.conf'') (demo_world (demo_fs None))))"
  by (simp add: deploy_eval)

text \<open>A first deployment, then the same call again.\<close>

theorem deploy_idempotent_witness:
  "Deployed ''a.conf'' ''/home/u/a.conf''
     \<in> set (new_events (demo_world (demo_fs None)) (demo_deploy (\<lambda>op. False) (demo_world (demo_fs None))))
   \<and> steady (demo_os (\<lambda>op. False)) (demo_deploy (\<lambda>op. False) (demo_world (demo_fs None))) (\<lambda>op. False)
   \<and> new_events (demo_deploy (\<lambda>op. False) (demo_world (demo_fs None)))
        (demo_deploy (\<lambda>op. False) (demo_deploy (\<lambda>op. False) (demo_world (demo_fs None))))
       = [UpToDate ''/home/u/a.conf'']
   \<and> new_created (demo_deploy (\<lambda>op. False) (demo_world (demo_fs None)))
        (demo_deploy (\<lambda>op. False) (demo_deploy (\<lambda>op. False) (demo_world (demo_fs None)))) = []
   \<and> nodes (demo_deploy (\<lambda>op. False) (demo_deploy (\<lambda>op. False) (demo_world (demo_fs None))))
       = nodes (demo_deploy (\<lambda>op. False) (demo_world (demo_fs None)))"
proof -
  let ?P = "demo_os (\<lambda>op. False)" and ?w = "demo_world (demo_fs None)"
  have h1: "Deployed ''a.conf'' ''/home/u/a.conf''
     \<in> set (new_events ?w (deployConfigFile ?P ''a.conf'' ''/home/u/a.conf'' ?w))"
    by (simp add: deploy_eval)
  have h2: "steady ?P v (\<lambda>op. False)" for v
    by (simp add: steady_def demo_os_def demo_platform_def)
  show ?thesis
    using deploy_idempotent [OF h1 refl refl h2] h1 h2 by (simp add: demo_deploy_def)
qed

section \<open>Modification times are not read\<close>

lemma forget_iff:
  "forget_mtimes w = forget_mtimes v \<longleftrightarrow>
     tick w = tick v \<and> clock_reads w = clock_reads v \<and> created w = created v
     \<and> env_PATH w = env_PATH v \<and> failures w = failures v \<and> scriptRoot w = scriptRoot v
     \<and> trace w = trace v
     \<and> (\<forall>p. map_option strip_mtime (nodes w p) = map_option strip_mtime (nodes v p))"
  by (cases w, cases v) (auto simp: forget_mtimes_def fun_eq_iff)

lemma strip_eq:
  assumes "map_option strip_mtime a = map_option strip_mtime b"
  shows "a = None \<longleftrightarrow> b = None" and "a = Some Dir \<longleftrightarrow> b = Some Dir"
    and "(\<exists>t. a = Some (File d t)) \<longleftrightarrow> (\<exists>t. b = Some (File d t))"
  using assms by (cases a; cases b; auto simp: strip_mtime_def split: node.splits)+

lemma forget_nodes:
  assumes "forget_mtimes w = forget_mtimes v"
  shows "nodes w p = None \<longleftrightarrow> nodes v p = None" and "nodes w p = Some Dir \<longleftrightarrow> nodes v p = Some Dir"
    and "content_at w p = content_at v p"
proof -
  have e: "map_option strip_mtime (nodes w p) = map_option strip_mtime (nodes v p)"
    using assms by (simp add: forget_iff)
  show "nodes w p = None \<longleftrightarrow> nodes v p = None" "nodes w p = Some Dir \<longleftrightarrow> nodes v p = Some Dir"
    using strip_eq [OF e] by blast+
  show "content_at w p = content_at v p"
    using e by (cases "nodes w p"; cases "nodes v p")
      (auto simp: content_at_def strip_mtime_def split: node.splits)
qed

lemma forget_fields:
  assumes "forget_mtimes w = forget_mtimes v"
  shows "tick w = tick v" "clock_reads w = clock_reads v" "created w = created v"
    "env_PATH w = env_PATH v" "failures w = failures v" "scriptRoot w = scriptRoot v"
    "trace w = trace v"
  using assms by (simp_all add: forget_iff)

lemma forget_advance:
  "forget_mtimes w = forget_mtimes v \<Longrightarrow> forget_mtimes (advance w) = forget_mtimes (advance v)"
  by (simp add: forget_iff)

lemma forget_report:
  assumes "forget_mtimes w = forget_mtimes v"
  shows "forget_mtimes (emit e w) = forget_mtimes (emit e v)"
    "forget_mtimes (writeSuccess m w) = forget_mtimes (writeSuccess m v)"
    "forget_mtimes (writeSkip m w) = forget_mtimes (writeSkip m v)"
    "forget_mtimes (writeFail m w) = forget_mtimes (writeFail m v)"
    "forget_mtimes (w\<lparr>clock_reads := k\<rparr>) = forget_mtimes (v\<lparr>clock_reads := k\<rparr>)"
  using assms by (simp_all add: forget_iff)

lemma forget_os_Stat:
  assumes "forget_mtimes w = forget_mtimes v"
  shows "isl (fst (os_Stat P p w)) = isl (fst (os_Stat P p v))"
    and "os_IsNotExist (err_of (fst (os_Stat P p w))) \<longleftrightarrow> os_IsNotExist (err_of (fst (os_Stat P p v)))"
  using forget_nodes(1) [OF assms, of p] forget_fields(1) [OF assms]
  by (auto simp: os_Stat_def os_IsNotExist_def err_of_def split: option.splits)

lemma forget_os_MkdirAll:
  assumes "forget_mtimes w = forget_mtimes v"
  shows "fst (os_MkdirAll P d w) = fst (os_MkdirAll P d v)"
    and "forget_mtimes (snd (os_MkdirAll P d w)) = forget_mtimes (snd (os_MkdirAll P d v))"
proof -
  have n: "nodes w d = None \<longleftrightarrow> nodes v d = None" "nodes w d = Some Dir \<longleftrightarrow> nodes v d = Some Dir"
    and t: "tick w = tick v"
    using forget_nodes [OF assms] forget_fields [OF assms] by simp_all
  show "fst (os_MkdirAll P d w) = fst (os_MkdirAll P d v)"
    using n t by (cases "nodes w d"; cases "nodes v d")
      (auto simp: os_MkdirAll_def split: node.splits)
  show "forget_mtimes (snd (os_MkdirAll P d w)) = forget_mtimes (snd (os_MkdirAll P d v))"
    using n t assms by (cases "nodes w d"; cases "nodes v d")
      (auto simp: os_MkdirAll_def forget_iff split: node.splits)
qed

lemma forget_fileHash:
  assumes "forget_mtimes w = forget_mtimes v"
  shows "fst (fileHash P p w) = fst (fileHash P p v)"
    and "forget_mtimes (snd (fileHash P p w)) = forget_mtimes (snd (fileHash P p v))"
proof -
  have n: "nodes w p = None \<longleftrightarrow> nodes v p = None" "nodes w p = Some Dir \<longleftrightarrow> nodes v p = Some Dir"
    "content_at w p = content_at v p"
    and t: "tick w = tick v"
    using forget_nodes [OF assms] forget_fields [OF assms] by simp_all
  show "fst (fileHash P p w) = fst (fileHash P p v)"
    using n t by (cases "nodes w p"; cases "nodes v p")
      (auto simp: fileHash_def os_Open_def io_read_def content_at_def split: node.splits)
  show "forget_mtimes (snd (fileHash P p w)) = forget_mtimes (snd (fileHash P p v))"
    using n t assms by (cases "nodes w p"; cases "nodes v p")
      (auto simp: fileHash_def os_Open_def io_read_def content_at_def forget_iff split: node.splits)
qed

lemma forget_os_Open:
  assumes "forget_mtimes w = forget_mtimes v"
  shows "fst (os_Open P p w) = fst (os_Open P p v)"
  unfolding os_Open_fst
  using forget_nodes(1) [OF assms, of p] forget_fields(1) [OF assms] by simp

lemma forget_os_Create:
  assumes "forget_mtimes w = forget_mtimes v"
  shows "fst (os_Create P p w) = fst (os_Create P p v)"
    and "forget_mtimes (snd (os_Create P p w)) = forget_mtimes (snd (os_Create P p v))"
proof -
  have n: "nodes w p = None \<longleftrightarrow> nodes v p = None" "nodes w p = Some Dir \<longleftrightarrow> nodes v p = Some Dir"
    and t: "tick w = tick v"
    using forget_nodes [OF assms] forget_fields [OF assms] by simp_all
  show "fst (os_Create P p w) = fst (os_Create P p v)"
    using n t by (cases "nodes w p"; cases "nodes v p")
      (auto simp: os_Create_def split: node.splits)
  show "forget_mtimes (snd (os_Create P p w)) = forget_mtimes (snd (os_Create P p v))"
    using n t assms by (cases "nodes w p"; cases "nodes v p")
      (auto simp: os_Create_def forget_iff split: node.splits)
qed

lemma forget_io_Copy:
  assumes "forget_mtimes w = forget_mtimes v"
  shows "fst (io_Copy P out inp w) = fst (io_Copy P out inp v)"
    and "forget_mtimes (snd (io_Copy P out inp w)) = forget_mtimes (snd (io_Copy P out inp v))"
proof -
  have n: "nodes w inp = None \<longleftrightarrow> nodes v inp = None"
    "nodes w inp = Some Dir \<longleftrightarrow> nodes v inp = Some Dir" "content_at w inp = content_at v inp"
    and t: "tick w = tick v"
    using forget_nodes [OF assms] forget_fields [OF assms] by simp_all
  show "fst (io_Copy P out inp w) = fst (io_Copy P out inp v)"
    using n t by (cases "nodes w inp"; cases "nodes v inp")
      (auto simp: io_Copy_def io_read_def io_write_def content_at_def split: node.splits)
  show "forget_mtimes (snd (io_Copy P out inp w)) = forget_mtimes (snd (io_Copy P out inp v))"
    using n t assms by (cases "nodes w inp"; cases "nodes v inp")
      (auto simp: io_Copy_def io_read_def io_write_def content_at_def forget_iff strip_mtime_def
        split: node.splits)
qed

lemma forget_copyFile:
  assumes "forget_mtimes w = forget_mtimes v"
  shows "fst (copyFile P src dst w) = fst (copyFile P src dst v)"
    and "forget_mtimes (snd (copyFile P src dst w)) = forget_mtimes (snd (copyFile P src dst v))"
proof -
  note a = forget_advance [OF assms]
  note o = forget_os_Open [OF assms, of P src]
  note c = forget_os_Create [OF a, of P dst]
  note i = forget_io_Copy [OF c(2), of P dst src]
  show "fst (copyFile P src dst w) = fst (copyFile P src dst v)"
    unfolding copyFile_unfold using o c(1) i(1) by simp
  show "forget_mtimes (snd (copyFile P src dst w)) = forget_mtimes (snd (copyFile P src dst v))"
    unfolding copyFile_unfold using o c(1) a forget_advance [OF a] i(2) by simp
qed

lemma forget_deploy_copy:
  assumes "forget_mtimes w = forget_mtimes v"
  shows "forget_mtimes (deploy_copy P srcRel sp target w) = forget_mtimes (deploy_copy P srcRel sp target v)"
proof -
  note c = forget_copyFile [OF assms, of P sp target]
  show ?thesis
    unfolding deploy_copy_unfold
    using c(1) forget_report(2,4) [OF c(2)] by simp
qed

lemma forget_deployConfigFile:
  assumes e: "forget_mtimes w = forget_mtimes v"
  shows "forget_mtimes (deployConfigFile P srcRel target w)
       = forget_mtimes (deployConfigFile P srcRel target v)"
proof -
  define sp where "sp = filepath_Join P [scriptRoot w, srcRel]"
  define dir where "dir = filepath_Dir P target"
  define bak where "bak = backup_name P target w"
  have spv: "sp = filepath_Join P [scriptRoot v, srcRel]" and bakv: "bak = backup_name P target v"
    using forget_fields [OF e] by (simp_all add: sp_def bak_def backup_name_def)
  define w2 where "w2 = snd (os_MkdirAll P dir (advance w))"
  define w4 where "w4 = snd (fileHash P sp (advance w2))"
  define w5 where "w5 = snd (fileHash P target w4)"
  define w6 where "w6 = emit (BackedUp bak) (snd (copyFile P target bak (w5\<lparr>clock_reads := Suc (clock_reads w)\<rparr>)))"
  define v2 where "v2 = snd (os_MkdirAll P dir (advance v))"
  define v4 where "v4 = snd (fileHash P sp (advance v2))"
  define v5 where "v5 = snd (fileHash P target v4)"
  define v6 where "v6 = emit (BackedUp bak) (snd (copyFile P target bak (v5\<lparr>clock_reads := Suc (clock_reads v)\<rparr>)))"
  note runw = deployConfigFile_run [OF sp_def dir_def w2_def w4_def w5_def bak_def w6_def refl]
  note runv = deployConfigFile_run [OF spv dir_def v2_def v4_def v5_def bakv v6_def refl]
  have e1: "forget_mtimes (advance w) = forget_mtimes (advance v)"
    using e by (rule forget_advance)
  have e2: "forget_mtimes w2 = forget_mtimes v2"
    unfolding w2_def v2_def using e1 by (rule forget_os_MkdirAll)
  have e3: "forget_mtimes (advance w2) = forget_mtimes (advance v2)"
    using e2 by (rule forget_advance)
  have e4: "forget_mtimes w4 = forget_mtimes v4"
    unfolding w4_def v4_def using e3 by (rule forget_fileHash)
  have e5: "forget_mtimes w5 = forget_mtimes v5"
    unfolding w5_def v5_def using e4 by (rule forget_fileHash)
  have e6: "forget_mtimes w6 = forget_mtimes v6"
  proof -
    have "forget_mtimes (w5\<lparr>clock_reads := Suc (clock_reads w)\<rparr>)
        = forget_mtimes (v5\<lparr>clock_reads := Suc (clock_reads v)\<rparr>)"
      using forget_report(5) [OF e5] forget_fields(2) [OF e] by simp
    then show ?thesis
      unfolding w6_def v6_def by (intro forget_report(1) forget_copyFile(2))
  qed
  have c1: "os_IsNotExist (err_of (fst (os_Stat P sp w))) \<longleftrightarrow> os_IsNotExist (err_of (fst (os_Stat P sp v)))"
    using e by (rule forget_os_Stat)
  have c2: "fst (os_MkdirAll P dir (advance w)) = fst (os_MkdirAll P dir (advance v))"
    using e1 by (rule forget_os_MkdirAll)
  have c3: "isl (fst (os_Stat P target w2)) = isl (fst (os_Stat P target v2))"
    using e2 by (rule forget_os_Stat)
  have c4: "fst (fileHash P sp (advance w2)) = fst (fileHash P sp (advance v2))"
    "fst (fileHash P target w4) = fst (fileHash P target v4)"
    using forget_fileHash(1) [OF e3] forget_fileHash(1) [OF e4] by simp_all
  note r = forget_report(4) [OF e1] forget_report(4) [OF e2] forget_report(3) [OF e5]
    forget_deploy_copy [OF e3] forget_deploy_copy [OF e6]
  show ?thesis
    unfolding runw runv using c1 c2 c3 c4 r by simp
qed

text \<open>
  C8.  Two calls of \<open>deployConfigFile\<close> from states that are the same but for the
  modification times of their files print the same, log the same failures and leave the
  same bytes at the target and everywhere else: the states after the calls are again the
  same but for modification times.
\<close>

theorem deploy_ignores_modification_times:
  assumes "forget_mtimes w = forget_mtimes v"
  shows "new_events w (deployConfigFile P srcRel target w) = new_events v (deployConfigFile P srcRel target v)
    \<and> new_failures w (deployConfigFile P srcRel target w) = new_failures v (deployConfigFile P srcRel target v)
    \<and> content_at (deployConfigFile P srcRel target w) target
        = content_at (deployConfigFile P srcRel target v) target
    \<and> forget_mtimes (deployConfigFile P srcRel target w) = forget_mtimes (deployConfigFile P srcRel target v)"
proof -
  note f = forget_deployConfigFile [OF assms, of P srcRel target]
  show ?thesis
    using f forget_fields [OF f] forget_fields [OF assms] forget_nodes(3) [OF f]
    by (simp add: new_events_def new_failures_def)
qed

text \<open>The same files with other modification times.\<close>

theorem deploy_ignores_modification_times_witness:
  "forget_mtimes (demo_world (demo_fs (Some (''Y'', 3)))) = forget_mtimes (demo_world (demo_fs (Some (''Y'', 777))))
   \<and> nodes (demo_world (demo_fs (Some (''Y'', 3)))) ''/home/u/a.conf''
        \<noteq> nodes (demo_world (demo_fs (Some (''Y'', 777)))) ''/home/u/a.conf''
   \<and> new_events (demo_world (demo_fs (Some (''Y'', 3))))
        (demo_deploy (\<lambda>op. False) (demo_world (demo_fs (Some (''Y'', 3)))))
       = new_events (demo_world (demo_fs (Some (''Y'', 777))))
           (demo_deploy (\<lambda>op. False) (demo_world (demo_fs (Some (''Y'', 777)))))
   \<and> content_at (demo_deploy (\<lambda>op. False) (demo_world (demo_fs (Some (''Y'', 3))))) ''/home/u/a.conf''
       = content_at (demo_deploy (\<lambda>op. False) (demo_world (demo_fs (Some (''Y'', 777))))) ''/home/u/a.conf''"
proof -
  have h: "forget_mtimes (demo_world (demo_fs (Some (''Y'', 3))))
         = forget_mtimes (demo_world (demo_fs (Some (''Y'', 777))))"
    by (simp add: forget_mtimes_def demo_world_def demo_fs_def strip_mtime_def fun_eq_iff)
  have n: "nodes (demo_world (demo_fs (Some (''Y'', 3)))) ''/home/u/a.conf''
        \<noteq> nodes (demo_world (demo_fs (Some (''Y'', 777)))) ''/home/u/a.conf''"
    by (simp add: demo_world_def demo_fs_def)
  show ?thesis
    using deploy_ignores_modification_times [OF h, of "demo_os (\<lambda>op. False)" "''a.conf''" "''/home/u/a.conf''"] h n
    by (simp add: demo_deploy_def)
qed

section \<open>Failures do not stop the run\<close>

lemma run_external_fields [simp]:
  "trace (snd (run_external P n a w)) = trace w @ [EvExec n a]"
  "failures (snd (run_external P n a w)) = failures w"
  by (simp_all add: run_external_def case_prod_beta)

lemma runCmd_fields [simp]:
  "trace (snd (runCmd P n a w)) = trace w @ [EvExec n a]"
  "failures (snd (runCmd P n a w)) = failures w"
  "trace (snd (runCmdPassthrough P n a w)) = trace w @ [EvExec n a]"
  "failures (snd (runCmdPassthrough P n a w)) = failures w"
  by (simp_all add: runCmd_def runCmdPassthrough_def case_prod_beta)

lemma refreshPath_fields [simp]:
  "trace (refreshPath P w) = trace w @ [EvExec ''powershell'' [''-NoProfile'', ''-Command'', refreshPath_script]]"
  "failures (refreshPath P w) = failures w"
  by (simp_all add: refreshPath_def case_prod_beta split: option.splits)


lemma scoop_add_bucket_failures [simp]: "failures (scoop_add_bucket P b w) = failures w"
  by (simp add: scoop_add_bucket_def case_prod_beta)





end
